theory Spec2Isabelle
  imports Main "HOL-Library.Sublist" "HOL-Library.Char_ord" "HOL-Library.List_Lexorder"
begin

section \<open>The orchestrator \<^verbatim>\<open>z3v_official.py\<close>: data model\<close>

text \<open>
  The script drives three external subsystems (background removal, shape pipeline, paint
  pipeline) over a batch of images. The model below keeps what the script itself does:
  path bookkeeping, the file system it reads and renames in, the working directory, the
  console lines it prints, and the exceptions that travel through its \<^verbatim>\<open>try\<close> blocks.

  Paths are absolute POSIX paths: the list of their components, the root being the empty
  list. There are no symbolic links. Byte strings and text are both \<^typ>\<open>string\<close>; \<^verbatim>\<open>suffix\<close> and \<^verbatim>\<open>stem\<close>
  follow \<^verbatim>\<open>PurePath\<close> (the last dot of the name counts unless it is the first or the
  last character), \<^verbatim>\<open>lower()\<close> acts on ASCII letters.

  The file system is a map from paths to regular files, directories, and paths the
  operating system refuses to look at. Every call into it that can raise in Python can
  raise in the model: opening, \<^verbatim>\<open>exists\<close>, \<^verbatim>\<open>is_file\<close>, \<^verbatim>\<open>mkdir\<close>, \<^verbatim>\<open>iterdir\<close>,
  \<^verbatim>\<open>replace\<close>, \<^verbatim>\<open>os.chdir\<close>, \<^verbatim>\<open>Path.cwd\<close>, saving an image.
\<close>

type_synonym path = "string list"
type_synonym bytes = string

subsection \<open>pathlib\<close>

definition path_name :: "path \<Rightarrow> string" where
  \<comment> \<open>\<^verbatim>\<open>p.name\<close>: the final component, empty for the root.\<close>
  "path_name p = (if p = [] then [] else last p)"

definition rfind_dot :: "string \<Rightarrow> nat" where
  \<comment> \<open>\<^verbatim>\<open>name.rfind('.') + 1\<close>: one more than the index of the last dot, 0 when there is none.\<close>
  "rfind_dot n = length (dropWhile (\<lambda>c. c \<noteq> CHR ''.'') (rev n))"

definition name_suffix :: "string \<Rightarrow> string" where
  \<comment> \<open>\<^verbatim>\<open>i = name.rfind('.'); name[i:] if 0 < i < len(name) - 1 else ''\<close>\<close>
  "name_suffix n = (let k = rfind_dot n in if 1 < k \<and> k < length n then drop (k - 1) n else [])"

definition name_stem :: "string \<Rightarrow> string" where
  \<comment> \<open>\<^verbatim>\<open>i = name.rfind('.'); name[:i] if 0 < i < len(name) - 1 else name\<close>\<close>
  "name_stem n = (let k = rfind_dot n in if 1 < k \<and> k < length n then take (k - 1) n else n)"

definition path_suffix :: "path \<Rightarrow> string" where
  "path_suffix p = name_suffix (path_name p)"

definition path_stem :: "path \<Rightarrow> string" where
  "path_stem p = name_stem (path_name p)"

definition path_parent :: "path \<Rightarrow> path" where
  "path_parent p = butlast p"

definition path_join :: "path \<Rightarrow> string \<Rightarrow> path" where
  \<comment> \<open>\<^verbatim>\<open>d / s\<close> for a single file name \<open>s\<close> (every use in the script is of that form).\<close>
  "path_join d s = d @ [s]"

definition path_resolve :: "path \<Rightarrow> path" where
  \<comment> \<open>\<^verbatim>\<open>p.resolve()\<close> without symbolic links: \<^verbatim>\<open>.\<close> is dropped, \<^verbatim>\<open>..\<close> goes up (the root is
      its own parent).\<close>
  "path_resolve p =
     foldl (\<lambda>acc c. if c = ''.'' then acc else if c = ''..'' then butlast acc else acc @ [c]) [] p"

definition path_str :: "path \<Rightarrow> string" where
  \<comment> \<open>\<^verbatim>\<open>str(p)\<close>\<close>
  "path_str p = (if p = [] then ''/'' else concat (map (\<lambda>c. CHR ''/'' # c) p))"

definition char_lower :: "char \<Rightarrow> char" where
  \<comment> \<open>\<^verbatim>\<open>str.lower()\<close> on one ASCII character.\<close>
  "char_lower c =
     (case map_of (zip ''ABCDEFGHIJKLMNOPQRSTUVWXYZ'' ''abcdefghijklmnopqrstuvwxyz'') c of
        Some d \<Rightarrow> d
      | None \<Rightarrow> c)"

definition lower :: "string \<Rightarrow> string" where
  "lower s = map char_lower s"

subsection \<open>Bytes\<close>

definition startswith :: "bytes \<Rightarrow> bytes \<Rightarrow> bool" where
  \<comment> \<open>\<^verbatim>\<open>s.startswith(pre)\<close>\<close>
  "startswith s pre = (take (length pre) s = pre)"

fun bytes_in :: "bytes \<Rightarrow> bytes \<Rightarrow> bool" where
  \<comment> \<open>\<^verbatim>\<open>pat in s\<close>: \<open>pat\<close> occurs as a contiguous slice of \<open>s\<close>.\<close>
  "bytes_in pat [] = (pat = [])"
| "bytes_in pat (c # cs) = (startswith (c # cs) pat \<or> bytes_in pat cs)"

definition is_ws :: "char \<Rightarrow> bool" where
  \<comment> \<open>The bytes \<^verbatim>\<open>bytes.lstrip()\<close> removes: space, tab, LF, VT, FF, CR.\<close>
  "is_ws c = (c \<in> set [CHR 0x20, CHR 0x09, CHR 0x0A, CHR 0x0B, CHR 0x0C, CHR 0x0D])"

definition lstrip :: "bytes \<Rightarrow> bytes" where
  "lstrip s = dropWhile is_ws s"

subsection \<open>Exceptions\<close>

text \<open>
  Every \<^verbatim>\<open>except\<close> clause of the script is \<^verbatim>\<open>except Exception\<close>. Python's hierarchy has
  exceptions below \<^verbatim>\<open>BaseException\<close> that are not below \<^verbatim>\<open>Exception\<close> (\<^verbatim>\<open>SystemExit\<close>,
  \<^verbatim>\<open>KeyboardInterrupt\<close>, \<^verbatim>\<open>GeneratorExit\<close>); such a clause lets them through. An exception
  carries which side of that line it is on, its class name and its message (\<^verbatim>\<open>str(e)\<close>).
  The message texts given to library exceptions below are placeholders.
\<close>

datatype exn_kind = ExceptionK | SystemExitingK

datatype exn = Exn (kind: exn_kind) (cls: string) (msg: string)

definition is_Exception :: "exn \<Rightarrow> bool" where
  \<comment> \<open>\<^verbatim>\<open>isinstance(e, Exception)\<close>\<close>
  "is_Exception e = (kind e = ExceptionK)"

definition os_error :: "string \<Rightarrow> path \<Rightarrow> exn" where
  "os_error c p = Exn ExceptionK c (path_str p)"

subsection \<open>File system, images\<close>

text \<open>
  \<open>Unreachable\<close> marks a path on which \<^verbatim>\<open>stat\<close> fails with an error other than "not
  found": search permission denied on a parent, a name longer than the file system allows.
  \<^verbatim>\<open>Path.exists\<close> and \<^verbatim>\<open>Path.is_file\<close> swallow "not found" and raise on the rest
  (Python up to 3.12).
\<close>

datatype node = File bytes | Dir | Unreachable

type_synonym fsmap = "(path \<times> node) list"

definition lookup :: "fsmap \<Rightarrow> path \<Rightarrow> node option" where
  "lookup f p = map_of f p"

definition fs_remove :: "fsmap \<Rightarrow> path \<Rightarrow> fsmap" where
  "fs_remove f p = filter (\<lambda>e. fst e \<noteq> p) f"

definition fs_write :: "fsmap \<Rightarrow> path \<Rightarrow> node \<Rightarrow> fsmap" where
  "fs_write f p n = (p, n) # fs_remove f p"

definition path_exists :: "fsmap \<Rightarrow> path \<Rightarrow> exn + bool" where
  \<comment> \<open>\<^verbatim>\<open>p.exists()\<close>\<close>
  "path_exists f p =
     (case lookup f p of
        None \<Rightarrow> Inr False
      | Some Unreachable \<Rightarrow> Inl (os_error ''OSError'' p)
      | Some _ \<Rightarrow> Inr True)"

definition is_file :: "fsmap \<Rightarrow> path \<Rightarrow> exn + bool" where
  \<comment> \<open>\<^verbatim>\<open>p.is_file()\<close>\<close>
  "is_file f p =
     (case lookup f p of
        Some (File _) \<Rightarrow> Inr True
      | Some Unreachable \<Rightarrow> Inl (os_error ''OSError'' p)
      | _ \<Rightarrow> Inr False)"

definition open_rb :: "fsmap \<Rightarrow> path \<Rightarrow> exn + bytes" where
  \<comment> \<open>\<^verbatim>\<open>p.open("rb")\<close> followed by reading: the content, or the \<^verbatim>\<open>OSError\<close> of a failed open.\<close>
  "open_rb f p =
     (case lookup f p of
        None \<Rightarrow> Inl (os_error ''FileNotFoundError'' p)
      | Some Dir \<Rightarrow> Inl (os_error ''IsADirectoryError'' p)
      | Some Unreachable \<Rightarrow> Inl (os_error ''OSError'' p)
      | Some (File bs) \<Rightarrow> Inr bs)"

definition holds_file :: "fsmap \<Rightarrow> path \<Rightarrow> bool" where
  "holds_file f q = (case lookup f q of Some (File _) \<Rightarrow> True | _ \<Rightarrow> False)"

definition ensure_dir :: "path \<Rightarrow> fsmap \<Rightarrow> fsmap" where
  "ensure_dir q f = (if lookup f q = None then (q, Dir) # f else f)"

definition mkdir_p :: "fsmap \<Rightarrow> path \<Rightarrow> exn + fsmap" where
  \<comment> \<open>\<^verbatim>\<open>p.mkdir(parents=True, exist_ok=True)\<close>: fails when an ancestor or \<open>p\<close> itself is a
      regular file or cannot be reached.\<close>
  "mkdir_p f p =
     (if list_ex (\<lambda>q. lookup f q = Some Unreachable) (prefixes p) then Inl (os_error ''OSError'' p)
      else if list_ex (holds_file f) (butlast (prefixes p)) then Inl (os_error ''NotADirectoryError'' p)
      else if holds_file f p then Inl (os_error ''FileExistsError'' p)
      else Inr (fold ensure_dir (prefixes p) f))"

definition has_children :: "fsmap \<Rightarrow> path \<Rightarrow> bool" where
  "has_children f d = list_ex (\<lambda>q. q \<noteq> d \<and> prefix d q \<and> lookup f q \<noteq> None) (map fst f)"

definition move_tree :: "fsmap \<Rightarrow> path \<Rightarrow> path \<Rightarrow> fsmap" where
  "move_tree f src dst =
     map (\<lambda>e. if prefix src (fst e) then (dst @ drop (length src) (fst e), snd e) else e) f"

definition os_replace :: "fsmap \<Rightarrow> path \<Rightarrow> path \<Rightarrow> exn + fsmap" where
  \<comment> \<open>\<^verbatim>\<open>src.replace(dst)\<close>, that is \<^verbatim>\<open>rename(2)\<close>: a file replaces a file, never a directory;
      a directory replaces an empty directory only.\<close>
  "os_replace f src dst =
     (case lookup f src of
        None \<Rightarrow> Inl (os_error ''FileNotFoundError'' src)
      | Some Unreachable \<Rightarrow> Inl (os_error ''OSError'' src)
      | Some (File bs) \<Rightarrow>
          (case lookup f dst of
             Some Dir \<Rightarrow> Inl (os_error ''IsADirectoryError'' dst)
           | Some Unreachable \<Rightarrow> Inl (os_error ''OSError'' dst)
           | _ \<Rightarrow> Inr (fs_write (fs_remove f src) dst (File bs)))
      | Some Dir \<Rightarrow>
          (if src = dst then Inr f
           else if prefix src dst then Inl (os_error ''OSError'' dst)
           else
             (case lookup f dst of
                Some (File _) \<Rightarrow> Inl (os_error ''NotADirectoryError'' dst)
              | Some Unreachable \<Rightarrow> Inl (os_error ''OSError'' dst)
              | Some Dir \<Rightarrow>
                  (if has_children f dst then Inl (os_error ''OSError'' dst)
                   else Inr (move_tree (fs_remove f dst) src dst))
              | None \<Rightarrow> Inr (move_tree f src dst))))"

definition iterdir :: "fsmap \<Rightarrow> path \<Rightarrow> exn + path list" where
  \<comment> \<open>\<^verbatim>\<open>d.iterdir()\<close>\<close>
  "iterdir f d =
     (case lookup f d of
        None \<Rightarrow> Inl (os_error ''FileNotFoundError'' d)
      | Some (File _) \<Rightarrow> Inl (os_error ''NotADirectoryError'' d)
      | Some Unreachable \<Rightarrow> Inl (os_error ''OSError'' d)
      | Some Dir \<Rightarrow> Inr (filter (\<lambda>q. q \<noteq> [] \<and> path_parent q = d) (remdups (map fst f))))"

record image =
  mode :: string
  info :: "string list"
  pixels :: "nat list"

subsection \<open>The world the script runs in\<close>

text \<open>
  The operating-system state is the file system and the process's working directory. The
  world adds what the orchestrator itself produces: the lines it prints, and a trace of the
  calls it makes into the external subsystems (kept by the model, so that "was never called"
  can be stated).
\<close>

record os_state =
  fs :: fsmap
  cwd :: path

datatype ext_call =
    LoadShape string
  | LoadPaint
  | Rembg
  | ShapeGen
  | Export string
  | Paint string string string

record world =
  sys :: os_state
  out :: "string list"
  calls :: "ext_call list"

type_synonym handle = nat
type_synonym mesh = nat

record paint_conf =
  max_num_view :: nat
  resolution :: nat
  realesrgan_ckpt_path :: string
  multiview_cfg_path :: string
  custom_pipeline :: string

text \<open>
  What the script imports and does not implement. The three subsystems are arbitrary
  functions of the operating-system state: they may write and remove files and directories,
  change the working directory, and raise any exception. PIL's decoder and encoder are
  uninterpreted; \<open>cvt\<close> is the pixel work of \<^verbatim>\<open>Image.convert\<close>, which loads the image data
  and can raise (\<^verbatim>\<open>Image.open\<close> is lazy). \<open>resolve_path\<close> stands for lines 176-178:
  \<^verbatim>\<open>Path(s).expanduser()\<close>, which raises \<^verbatim>\<open>RuntimeError\<close> when the home directory cannot be
  determined, then made absolute against \<^verbatim>\<open>Path.cwd()\<close>.
\<close>

record externals =
  script_dir :: path
  resolve_path :: "os_state \<Rightarrow> string \<Rightarrow> exn + path"
  decode :: "bytes \<Rightarrow> image option"
  encode :: "string \<Rightarrow> image \<Rightarrow> bytes option"
  cvt :: "image \<Rightarrow> string \<Rightarrow> exn + nat list"
  rembg :: "os_state \<Rightarrow> image \<Rightarrow> os_state \<times> (exn + image)"
  from_pretrained :: "os_state \<Rightarrow> string \<Rightarrow> os_state \<times> (exn + handle)"
  paint_ctor :: "os_state \<Rightarrow> paint_conf \<Rightarrow> os_state \<times> (exn + handle)"
  shapegen :: "handle \<Rightarrow> os_state \<Rightarrow> image \<Rightarrow> os_state \<times> (exn + mesh list)"
  export :: "os_state \<Rightarrow> mesh \<Rightarrow> string \<Rightarrow> os_state \<times> (exn + unit)"
  paint :: "handle \<Rightarrow> os_state \<Rightarrow> string \<Rightarrow> string \<Rightarrow> string \<Rightarrow> os_state \<times> (exn + unit)"

record args =
  remove_bg :: bool
  force_remove :: bool
  path_arg :: "string option"

definition and_then ::
  "world \<times> (exn + 'a) \<Rightarrow> ('a \<Rightarrow> world \<Rightarrow> world \<times> (exn + 'b)) \<Rightarrow> world \<times> (exn + 'b)" where
  \<comment> \<open>Sequencing: an exception of the first statement skips the rest.\<close>
  "and_then m k = (case m of (w, Inl e) \<Rightarrow> (w, Inl e) | (w, Inr a) \<Rightarrow> k a w)"

definition print_line :: "string \<Rightarrow> world \<Rightarrow> world" where
  "print_line s w = w\<lparr>out := out w @ [s]\<rparr>"

definition set_fs :: "fsmap \<Rightarrow> world \<Rightarrow> world" where
  "set_fs f w = w\<lparr>sys := (sys w)\<lparr>fs := f\<rparr>\<rparr>"

definition set_cwd :: "path \<Rightarrow> world \<Rightarrow> world" where
  "set_cwd d w = w\<lparr>sys := (sys w)\<lparr>cwd := d\<rparr>\<rparr>"

definition chdir :: "path \<Rightarrow> world \<Rightarrow> world \<times> (exn + unit)" where
  \<comment> \<open>\<^verbatim>\<open>os.chdir(d)\<close>: the target must be a directory that is there.\<close>
  "chdir d w =
     (case lookup (fs (sys w)) d of
        Some Dir \<Rightarrow> (set_cwd d w, Inr ())
      | Some (File _) \<Rightarrow> (w, Inl (os_error ''NotADirectoryError'' d))
      | Some Unreachable \<Rightarrow> (w, Inl (os_error ''PermissionError'' d))
      | None \<Rightarrow> (w, Inl (os_error ''FileNotFoundError'' d)))"

definition getcwd :: "world \<Rightarrow> exn + path" where
  \<comment> \<open>\<^verbatim>\<open>Path.cwd()\<close>: fails when the working directory has been removed.\<close>
  "getcwd w =
     (if lookup (fs (sys w)) (cwd (sys w)) = Some Dir then Inr (cwd (sys w))
      else Inl (os_error ''FileNotFoundError'' (cwd (sys w))))"

definition call_ext ::
  "ext_call \<Rightarrow> (os_state \<Rightarrow> os_state \<times> (exn + 'a)) \<Rightarrow> world \<Rightarrow> world \<times> (exn + 'a)" where
  "call_ext c f w = (case f (sys w) of (s, r) \<Rightarrow> (w\<lparr>sys := s, calls := calls w @ [c]\<rparr>, r))"

definition mkdir_step :: "path \<Rightarrow> world \<Rightarrow> world \<times> (exn + unit)" where
  "mkdir_step p w =
     (case mkdir_p (fs (sys w)) p of Inl e \<Rightarrow> (w, Inl e) | Inr f \<Rightarrow> (set_fs f w, Inr ()))"

subsection \<open>PIL\<close>

definition image_open :: "externals \<Rightarrow> fsmap \<Rightarrow> path \<Rightarrow> exn + image" where
  \<comment> \<open>\<^verbatim>\<open>Image.open(p)\<close>\<close>
  "image_open ext f p =
     (case open_rb f p of
        Inl e \<Rightarrow> Inl e
      | Inr bs \<Rightarrow>
          (case decode ext bs of
             None \<Rightarrow> Inl (os_error ''UnidentifiedImageError'' p)
           | Some im \<Rightarrow> Inr im))"

definition convert :: "externals \<Rightarrow> image \<Rightarrow> string \<Rightarrow> exn + image" where
  \<comment> \<open>\<^verbatim>\<open>im.convert(m)\<close>\<close>
  "convert ext im m =
     (case cvt ext im m of
        Inl e \<Rightarrow> Inl e
      | Inr px \<Rightarrow> Inr \<lparr>mode = m, info = info im, pixels = px\<rparr>)"

definition image_save :: "externals \<Rightarrow> image \<Rightarrow> path \<Rightarrow> world \<Rightarrow> world \<times> (exn + unit)" where
  \<comment> \<open>\<^verbatim>\<open>im.save(p)\<close>: the format follows the lowercased extension of \<open>p\<close>; the file is
      created in an existing directory.\<close>
  "image_save ext im p w =
     (case encode ext (lower (path_suffix p)) im of
        None \<Rightarrow> (w, Inl (Exn ExceptionK ''ValueError'' (path_suffix p)))
      | Some bs \<Rightarrow>
          (if lookup (fs (sys w)) (path_parent p) \<noteq> Some Dir then
             (w, Inl (os_error ''FileNotFoundError'' p))
           else if lookup (fs (sys w)) p = Some Dir then (w, Inl (os_error ''IsADirectoryError'' p))
           else if lookup (fs (sys w)) p = Some Unreachable then (w, Inl (os_error ''OSError'' p))
           else (set_fs (fs_write (fs (sys w)) p (File bs)) w, Inr ())))"

section \<open>The functions of the script\<close>

definition is_valid_glb :: "fsmap \<Rightarrow> path \<Rightarrow> exn + bool" where
  \<comment> \<open>lines 70-76\<close>
  "is_valid_glb f p =
     (case open_rb f p of
        Inr bs \<Rightarrow> Inr (take 4 bs = ''glTF'')
      | Inl e \<Rightarrow> (if is_Exception e then Inr False else Inl e))"

definition looks_like_obj_text :: "fsmap \<Rightarrow> path \<Rightarrow> exn + bool" where
  \<comment> \<open>lines 79-91\<close>
  "looks_like_obj_text f p =
     (case open_rb f p of
        Inr bs \<Rightarrow>
          (let head = take 64 bs
           in Inr (bytes_in ''mtllib'' head
                   \<or> startswith (lstrip head) ''#''
                   \<or> startswith (lstrip head) ''o ''
                   \<or> startswith (lstrip head) ''v ''))
      | Inl e \<Rightarrow> (if is_Exception e then Inr False else Inl e))"

definition has_alpha_png :: "externals \<Rightarrow> fsmap \<Rightarrow> path \<Rightarrow> exn + bool" where
  \<comment> \<open>lines 94-105\<close>
  "has_alpha_png ext f p =
     (if lower (path_suffix p) \<noteq> ''.png'' then Inr False
      else
        (case image_open ext f p of
           Inr im \<Rightarrow>
             (if mode im \<in> set [''RGBA'', ''LA''] then Inr True
              else Inr (''transparency'' \<in> set (info im)))
         | Inl e \<Rightarrow> (if is_Exception e then Inr False else Inl e)))"

definition remove_background_to_png ::
  "externals \<Rightarrow> path \<Rightarrow> path \<Rightarrow> bool \<Rightarrow> world \<Rightarrow> world \<times> (exn + path)" where
  \<comment> \<open>lines 108-127\<close>
  "remove_background_to_png ext src dst_png force w =
     (case (if force then Inr False else has_alpha_png ext (fs (sys w)) src) of
        Inl e \<Rightarrow> (w, Inl e)
      | Inr True \<Rightarrow> (w, Inr src)
      | Inr False \<Rightarrow>
          and_then (mkdir_step (path_parent dst_png) w) (\<lambda>_ w.
          and_then (w, image_open ext (fs (sys w)) src) (\<lambda>im w.
          and_then (w, if mode im \<noteq> ''RGB'' then convert ext im ''RGB'' else Inr im) (\<lambda>im_rgb w.
          and_then (call_ext Rembg (\<lambda>s. rembg ext s im_rgb) w) (\<lambda>out_im w.
          and_then (w, convert ext out_im ''RGBA'') (\<lambda>out_rgba w.
          and_then (image_save ext out_rgba dst_png w) (\<lambda>_ w.
          (w, Inr dst_png))))))))"

definition exts :: "string list" where
  "exts = [''.png'', ''.jpg'', ''.jpeg'', ''.webp'', ''.bmp'', ''.tif'', ''.tiff'']"

fun keep_images :: "fsmap \<Rightarrow> path list \<Rightarrow> exn + path list" where
  \<comment> \<open>the filter of the comprehension, lines 134-135; \<^verbatim>\<open>p.is_file()\<close> may raise\<close>
  "keep_images f [] = Inr []"
| "keep_images f (p # ps) =
     (case is_file f p of
        Inl e \<Rightarrow> Inl e
      | Inr b \<Rightarrow>
          (case keep_images f ps of
             Inl e \<Rightarrow> Inl e
           | Inr rest \<Rightarrow> Inr (if b \<and> lower (path_suffix p) \<in> set exts then p # rest else rest)))"

definition collect_images :: "fsmap \<Rightarrow> path \<Rightarrow> exn + path list" where
  \<comment> \<open>lines 130-136\<close>
  "collect_images f input_dir =
     (case iterdir f input_dir of
        Inl e \<Rightarrow> Inl e
      | Inr ps \<Rightarrow> keep_images f (sort ps))"

subsection \<open>\<^verbatim>\<open>main\<close>, lines 139-266\<close>

text \<open>
  \<^verbatim>\<open>main\<close> is one long function in the source. It is cut here along its own blocks: the
  start of a loop iteration (\<open>job_setup\<close>, lines 205-214), the \<^verbatim>\<open>try\<close> body up to the paint
  stage (\<open>stages\<close>, lines 218-245), the output check (\<open>verify_output\<close>, lines 247-258), the
  \<^verbatim>\<open>except\<close> and \<^verbatim>\<open>finally\<close> clauses (\<open>job_leave\<close>, lines 260-263), one loop iteration
  (\<open>process_image\<close>), the loop (\<open>main_loop\<close>), and what follows the choice of the images
  (\<open>run_batch\<close>, lines 186-266).
\<close>

definition MODEL_PATH :: string where
  "MODEL_PATH = ''/path/to/hy3d/models/Hunyuan3D-2.1''"

definition MAX_NUM_VIEW :: nat where
  "MAX_NUM_VIEW = 8"

definition RESOLUTION :: nat where
  "RESOLUTION = 512"

definition verify_output :: "path \<Rightarrow> string \<Rightarrow> world \<Rightarrow> world \<times> (exn + unit)" where
  "verify_output per_item_dir stem w =
     (let out_glb_maybe = path_join per_item_dir (stem @ ''_textured.glb'')
      in case path_exists (fs (sys w)) out_glb_maybe of
           Inl e \<Rightarrow> (w, Inl e)
         | Inr True \<Rightarrow>
           (case is_valid_glb (fs (sys w)) out_glb_maybe of
              Inl e \<Rightarrow> (w, Inl e)
            | Inr True \<Rightarrow>
                (print_line (''[OK] Textured GLB exported: '' @ path_name out_glb_maybe) w, Inr ())
            | Inr False \<Rightarrow>
                (case looks_like_obj_text (fs (sys w)) out_glb_maybe of
                   Inl e \<Rightarrow> (w, Inl e)
                 | Inr True \<Rightarrow>
                     (let out_obj = path_join per_item_dir (stem @ ''_textured.obj'')
                      in case os_replace (fs (sys w)) out_glb_maybe out_obj of
                           Inl e \<Rightarrow> (w, Inl e)
                         | Inr f \<Rightarrow>
                             (print_line (''[FIX] Output was OBJ text, renamed to: '' @ path_name out_obj)
                                (set_fs f w), Inr ()))
                 | Inr False \<Rightarrow>
                     (print_line
                        (''[WARN] Output exists but is not valid GLB and doesn't look like OBJ: ''
                           @ path_name out_glb_maybe) w, Inr ())))
         | Inr False \<Rightarrow>
           (print_line ''[WARN] output_mesh_path not found after paint. Check logs in this folder.'' w,
            Inr ()))"

definition stages ::
  "externals \<Rightarrow> args \<Rightarrow> handle \<Rightarrow> handle \<Rightarrow> path \<Rightarrow> path \<Rightarrow> string \<Rightarrow> world \<Rightarrow> world \<times> (exn + unit)" where
  "stages ext a pipeline_shapegen paint_pipeline img_path per_item_dir stem w =
     and_then
       (if remove_bg a then
          and_then
            (remove_background_to_png ext img_path
               (path_join per_item_dir (stem @ ''_bgremoved.png'')) (force_remove a) w)
            (\<lambda>input_for_model w.
               (print_line (''[OK] BG removed -> '' @ path_name input_for_model) w, Inr input_for_model))
        else (w, Inr img_path))
       (\<lambda>input_for_model w.
     and_then (w, image_open ext (fs (sys w)) input_for_model) (\<lambda>image0 w.
     and_then (w, if mode image0 \<noteq> ''RGBA'' then convert ext image0 ''RGBA'' else Inr image0) (\<lambda>image w.
     let shape_glb = path_join per_item_dir (stem @ ''_shape.glb'')
     in and_then (call_ext ShapeGen (\<lambda>s. shapegen ext pipeline_shapegen s image) w) (\<lambda>meshes w.
        and_then (w, case meshes of [] \<Rightarrow> Inl (Exn ExceptionK ''IndexError'' ''list index out of range'')
                                  | m # _ \<Rightarrow> Inr m) (\<lambda>mesh w.
        and_then (call_ext (Export (path_str shape_glb)) (\<lambda>s. export ext s mesh (path_str shape_glb)) w)
          (\<lambda>_ w.
        let w1 = print_line (''[OK] Shape exported: '' @ path_name shape_glb) w;
            out_glb_maybe = path_join per_item_dir (stem @ ''_textured.glb'')
        in call_ext (Paint (path_str shape_glb) (path_str input_for_model) (path_str out_glb_maybe))
             (\<lambda>s. paint ext paint_pipeline s (path_str shape_glb) (path_str input_for_model)
                     (path_str out_glb_maybe)) w1))))))"

definition job_body ::
  "externals \<Rightarrow> args \<Rightarrow> handle \<Rightarrow> handle \<Rightarrow> path \<Rightarrow> path \<Rightarrow> string \<Rightarrow> world \<Rightarrow> world \<times> (exn + unit)" where
  \<comment> \<open>the \<^verbatim>\<open>try\<close> block, lines 217-258\<close>
  "job_body ext a sp pp img_path per_item_dir stem w =
     and_then (stages ext a sp pp img_path per_item_dir stem w) (\<lambda>_ w. verify_output per_item_dir stem w)"

definition job_announce :: "path \<Rightarrow> path \<Rightarrow> world \<Rightarrow> world" where
  \<comment> \<open>the three prints, lines 209-211\<close>
  "job_announce img_path per_item_dir w =
     print_line (''[INFO] Output dir:  '' @ path_str per_item_dir)
       (print_line (''[INFO] Processing: '' @ path_name img_path)
         (print_line (CHR 0x0A # replicate 70 (CHR ''='')) w))"

definition job_setup :: "path \<Rightarrow> path \<Rightarrow> world \<Rightarrow> world \<times> (exn + path \<times> string \<times> path)" where
  \<comment> \<open>lines 205-214, all outside the \<^verbatim>\<open>try\<close>: the result is \<open>(per_item_dir, stem, old_cwd)\<close>\<close>
  "job_setup output_dir img_path w =
     (let stem = path_stem img_path;
          per_item_dir = path_resolve (path_join output_dir stem)
      in and_then (mkdir_step per_item_dir w) (\<lambda>_ w.
         and_then (job_announce img_path per_item_dir w,
                   getcwd (job_announce img_path per_item_dir w)) (\<lambda>old_cwd w.
         and_then (chdir per_item_dir w) (\<lambda>_ w.
         (w, Inr (per_item_dir, stem, old_cwd))))))"

definition job_leave :: "path \<Rightarrow> path \<Rightarrow> world \<times> (exn + unit) \<Rightarrow> world \<times> (exn + unit)" where
  \<comment> \<open>lines 260-263: \<^verbatim>\<open>except Exception as e\<close>, then \<^verbatim>\<open>finally: os.chdir(old_cwd)\<close>. An
      exception of the \<^verbatim>\<open>finally\<close> clause replaces the one in flight.\<close>
  "job_leave img_path old_cwd r =
     (case r of
        (w, Inr u) \<Rightarrow> chdir old_cwd w
      | (w, Inl e) \<Rightarrow>
          (if is_Exception e then
             chdir old_cwd (print_line (''[ERROR] Failed on '' @ path_name img_path @ '': '' @ msg e) w)
           else
             (case chdir old_cwd w of
                (w', Inl e') \<Rightarrow> (w', Inl e')
              | (w', Inr u) \<Rightarrow> (w', Inl e))))"

definition process_image ::
  "externals \<Rightarrow> args \<Rightarrow> handle \<Rightarrow> handle \<Rightarrow> path \<Rightarrow> path \<Rightarrow> world \<Rightarrow> world \<times> (exn + unit)" where
  \<comment> \<open>one iteration of the loop, lines 205-263\<close>
  "process_image ext a sp pp output_dir img_path w =
     and_then (job_setup output_dir img_path w) (\<lambda>(per_item_dir, stem, old_cwd) w.
       job_leave img_path old_cwd (job_body ext a sp pp img_path per_item_dir stem w))"

fun main_loop ::
  "externals \<Rightarrow> args \<Rightarrow> handle \<Rightarrow> handle \<Rightarrow> path \<Rightarrow> path list \<Rightarrow> world \<Rightarrow> world \<times> (exn + unit)" where
  "main_loop ext a sp pp output_dir [] w = (w, Inr ())"
| "main_loop ext a sp pp output_dir (img_path # rest) w =
     (case process_image ext a sp pp output_dir img_path w of
        (w', Inl e) \<Rightarrow> (w', Inl e)
      | (w', Inr u) \<Rightarrow> main_loop ext a sp pp output_dir rest w')"

definition hy3dpaint_dir :: "externals \<Rightarrow> path" where
  "hy3dpaint_dir ext = path_join (script_dir ext) ''hy3dpaint''"

definition make_conf :: "externals \<Rightarrow> paint_conf" where
  \<comment> \<open>lines 196-199\<close>
  "make_conf ext =
     \<lparr>max_num_view = MAX_NUM_VIEW, resolution = RESOLUTION,
      realesrgan_ckpt_path = path_str (path_join (path_join (hy3dpaint_dir ext) ''ckpt'') ''RealESRGAN_x4plus.pth''),
      multiview_cfg_path = path_str (path_join (path_join (hy3dpaint_dir ext) ''cfgs'') ''hunyuan-paint-pbr.yaml''),
      custom_pipeline = path_str (path_join (hy3dpaint_dir ext) ''hunyuanpaintpbr'')\<rparr>"

definition run_batch ::
  "externals \<Rightarrow> args \<Rightarrow> path \<Rightarrow> path \<Rightarrow> path list \<Rightarrow> world \<Rightarrow> world \<times> (exn + unit)" where
  \<comment> \<open>lines 186-266\<close>
  "run_batch ext a input_dir output_dir images w =
     (if images = [] then
        (print_line ''[INFO] Put one or more images into ./input and run again, or use --path <file>.''
           (print_line (''[INFO] No images found in: '' @ path_str input_dir) w), Inr ())
      else
        and_then
          (call_ext (LoadShape MODEL_PATH) (\<lambda>s. from_pretrained ext s MODEL_PATH)
             (print_line (''[INFO] Loading shape model from: '' @ MODEL_PATH) w))
          (\<lambda>pipeline_shapegen w.
        and_then
          (call_ext LoadPaint (\<lambda>s. paint_ctor ext s (make_conf ext))
             (print_line ''[INFO] Loading paint pipeline...'' w))
          (\<lambda>paint_pipeline w.
        and_then (main_loop ext a pipeline_shapegen paint_pipeline output_dir images w) (\<lambda>_ w.
          (print_line (''[INFO] Outputs in: '' @ path_str output_dir)
             (print_line (CHR 0x0A # ''[DONE] Completed.'') w), Inr ())))))"

definition select_single ::
  "externals \<Rightarrow> args \<Rightarrow> path \<Rightarrow> path \<Rightarrow> string \<Rightarrow> world \<Rightarrow> world \<times> (exn + unit)" where
  \<comment> \<open>lines 176-182 followed by \<open>run_batch\<close>. In \<^verbatim>\<open>not single.exists() or not single.is_file()\<close>
      the second test runs only when the first found the path.\<close>
  "select_single ext a input_dir output_dir s w =
     and_then (w, resolve_path ext (sys w) s) (\<lambda>single w.
     and_then (w, path_exists (fs (sys w)) single) (\<lambda>found w.
     and_then (w, if found then is_file (fs (sys w)) single else Inr False) (\<lambda>regular w.
       if \<not> found \<or> \<not> regular then
         (print_line (''[ERROR] --path file not found: '' @ path_str single) w, Inr ())
       else run_batch ext a input_dir output_dir [single] w)))"

definition main :: "externals \<Rightarrow> args \<Rightarrow> world \<Rightarrow> world \<times> (exn + unit)" where
  \<comment> \<open>lines 169-184, then \<open>run_batch\<close>; \<^verbatim>\<open>if args.path:\<close> is false for \<^verbatim>\<open>None\<close> and for the empty string\<close>
  "main ext a w =
     (let input_dir = path_resolve (path_join (script_dir ext) ''input'');
          output_dir = path_resolve (path_join (script_dir ext) ''output'')
      in and_then (mkdir_step input_dir w) (\<lambda>_ w.
         and_then (mkdir_step output_dir w) (\<lambda>_ w.
         (case path_arg a of
            Some s \<Rightarrow>
              (if s \<noteq> [] then select_single ext a input_dir output_dir s w
               else
                 and_then (w, collect_images (fs (sys w)) input_dir) (\<lambda>images w.
                   run_batch ext a input_dir output_dir images w))
          | None \<Rightarrow>
              and_then (w, collect_images (fs (sys w)) input_dir) (\<lambda>images w.
                run_batch ext a input_dir output_dir images w)))))"

section \<open>The spec's notion of an alpha channel\<close>

definition spec_carries_alpha :: "image \<Rightarrow> bool" where
  \<comment> \<open>Follows the spec's words, not the code: "true RGBA/LA image mode, or a palette image
      with a transparency entry".\<close>
  "spec_carries_alpha im =
     (mode im = ''RGBA'' \<or> mode im = ''LA'' \<or> (mode im = ''P'' \<and> ''transparency'' \<in> set (info im)))"

section \<open>Concrete runs\<close>

text \<open>
  A small installation under \<^verbatim>\<open>/app\<close>, started from \<^verbatim>\<open>/home\<close>, with four input images, and
  stand-ins for the external subsystems. The toy codec stores an image as the bytes of its
  mode, followed by \<^verbatim>\<open>+tRNS\<close> when the image has a transparency entry.
\<close>

definition cat_png :: path where
  "cat_png = [''app'', ''input'', ''cat.png'']"

definition dog_webp :: path where
  "dog_webp = [''app'', ''input'', ''dog.webp'']"

definition icon_png :: path where
  "icon_png = [''app'', ''input'', ''icon.png'']"

definition key_png :: path where
  "key_png = [''app'', ''input'', ''key.png'']"

definition out_dir :: path where
  "out_dir = [''app'', ''output'']"

definition demo_ext :: externals where
  "demo_ext =
     \<lparr>script_dir = [''app''],
      resolve_path = (\<lambda>s arg.
        if startswith arg ''~'' then Inl (Exn ExceptionK ''RuntimeError'' ''Could not determine home directory.'')
        else Inr (cwd s @ [arg])),
      decode = (\<lambda>bs. if bs = [] then None
                      else Some \<lparr>mode = takeWhile (\<lambda>c. c \<noteq> CHR ''+'') bs,
                                 info = (if bytes_in ''+tRNS'' bs then [''transparency''] else []),
                                 pixels = []\<rparr>),
      encode = (\<lambda>sfx im. if sfx = ''.png'' then Some (mode im) else None),
      cvt = (\<lambda>im m. Inr (pixels im)),
      rembg = (\<lambda>s im. (s, Inr (im\<lparr>mode := ''LA''\<rparr>))),
      from_pretrained = (\<lambda>s m. (s, Inr 1)),
      paint_ctor = (\<lambda>s c. (s, Inr 2)),
      shapegen = (\<lambda>h s im. (s, Inr [7])),
      export = (\<lambda>s m p. (s, Inr ())),
      paint = (\<lambda>h s m i t. (s, Inr ()))\<rparr>"

definition ext_sysexit :: externals where
  \<comment> \<open>the paint stage calls \<^verbatim>\<open>sys.exit(1)\<close>\<close>
  "ext_sysexit = demo_ext\<lparr>paint := (\<lambda>h s m i t. (s, Inl (Exn SystemExitingK ''SystemExit'' ''1'')))\<rparr>"

definition ext_fail :: externals where
  \<comment> \<open>the paint stage raises a \<^verbatim>\<open>RuntimeError\<close>\<close>
  "ext_fail = demo_ext\<lparr>paint := (\<lambda>h s m i t. (s, Inl (Exn ExceptionK ''RuntimeError'' ''out of memory'')))\<rparr>"

definition ext_junk :: externals where
  \<comment> \<open>the paint stage writes a file that is neither GLB nor OBJ text\<close>
  "ext_junk = demo_ext\<lparr>paint := (\<lambda>h s m i t.
     (s\<lparr>fs := fs_write (fs s) [''app'', ''output'', ''cat'', ''cat_textured.glb''] (File ''PK junk'')\<rparr>,
      Inr ()))\<rparr>"

definition ext_rmhome :: externals where
  \<comment> \<open>the paint stage removes the directory the program was started from\<close>
  "ext_rmhome = demo_ext\<lparr>paint := (\<lambda>h s m i t. (s\<lparr>fs := fs_remove (fs s) [''home'']\<rparr>, Inr ()))\<rparr>"

definition ext_objdir :: externals where
  \<comment> \<open>the paint stage writes OBJ text to the \<^verbatim>\<open>.glb\<close> path and leaves a directory at the
      \<^verbatim>\<open>.obj\<close> path\<close>
  "ext_objdir = demo_ext\<lparr>paint := (\<lambda>h s m i t.
     (s\<lparr>fs := fs_write
               (fs_write (fs s) [''app'', ''output'', ''cat'', ''cat_textured.glb'']
                  (File ''# OBJ\<newline>v 0 0 0\<newline>''))
               [''app'', ''output'', ''cat'', ''cat_textured.obj''] Dir\<rparr>,
      Inr ()))\<rparr>"

definition demo_world :: world where
  "demo_world =
     \<lparr>sys = \<lparr>fs = [(cat_png, File ''RGB''), (dog_webp, File ''RGBA''), (icon_png, File ''RGBA''),
                    (key_png, File ''RGB+tRNS''), ([''home''], Dir), ([], Dir)],
             cwd = [''home'']\<rparr>,
      out = [], calls = []\<rparr>"

definition bare_world :: world where
  "bare_world = \<lparr>sys = \<lparr>fs = [([''home''], Dir), ([], Dir)], cwd = [''home'']\<rparr>, out = [], calls = []\<rparr>"

definition demo_args :: args where
  "demo_args = \<lparr>remove_bg = False, force_remove = False, path_arg = None\<rparr>"

definition late_mtllib :: bytes where
  \<comment> \<open>OBJ text whose \<^verbatim>\<open>mtllib\<close> line starts at byte 67\<close>
  "late_mtllib = ''g mesh\<newline>vn 0.000000 0.000000 1.000000\<newline>vn 0.000000 1.000000 0.000000\<newline>mtllib material.mtl\<newline>v 0 0 0\<newline>''"

definition world_with_output :: "bytes \<Rightarrow> world" where
  \<comment> \<open>the world after a paint stage that left \<open>bs\<close> at \<^verbatim>\<open>/app/output/cat/cat_textured.glb\<close>\<close>
  "world_with_output bs =
     \<lparr>sys = \<lparr>fs = [([''app'', ''output'', ''cat'', ''cat_textured.glb''], File bs),
                    ([''app'', ''output'', ''cat''], Dir)],
             cwd = [''app'', ''output'', ''cat'']\<rparr>,
      out = [], calls = []\<rparr>"

section \<open>Basic facts\<close>

lemmas model_defs =
  path_name_def rfind_dot_def name_suffix_def name_stem_def path_suffix_def path_stem_def
  path_parent_def path_join_def path_resolve_def path_str_def char_lower_def lower_def
  startswith_def is_ws_def lstrip_def is_Exception_def os_error_def lookup_def fs_remove_def
  fs_write_def path_exists_def is_file_def open_rb_def holds_file_def ensure_dir_def mkdir_p_def
  has_children_def move_tree_def os_replace_def iterdir_def and_then_def print_line_def
  set_fs_def set_cwd_def chdir_def getcwd_def call_ext_def mkdir_step_def image_open_def
  convert_def image_save_def is_valid_glb_def looks_like_obj_text_def has_alpha_png_def
  remove_background_to_png_def exts_def collect_images_def MODEL_PATH_def MAX_NUM_VIEW_def
  RESOLUTION_def verify_output_def stages_def job_body_def job_announce_def job_setup_def
  job_leave_def process_image_def hy3dpaint_dir_def make_conf_def run_batch_def
  select_single_def main_def Let_def

lemmas demo_defs =
  cat_png_def dog_webp_def icon_png_def key_png_def out_dir_def demo_ext_def ext_sysexit_def
  ext_fail_def ext_junk_def ext_rmhome_def ext_objdir_def demo_world_def bare_world_def
  demo_args_def late_mtllib_def world_with_output_def spec_carries_alpha_def

lemma lookup_fs_remove: "lookup (fs_remove f p) q = (if q = p then None else lookup f q)"
  unfolding lookup_def fs_remove_def
  by (induction f) auto

lemma lookup_fs_write: "lookup (fs_write f p n) q = (if q = p then Some n else lookup f q)"
  unfolding fs_write_def using lookup_fs_remove [of f p q]
  by (simp add: lookup_def)

lemma open_rb_raises_Exception: "open_rb f p = Inl e \<Longrightarrow> is_Exception e"
  by (auto simp: open_rb_def os_error_def is_Exception_def split: option.splits node.splits)

lemma open_rb_File: "lookup f p = Some (File bs) \<Longrightarrow> open_rb f p = Inr bs"
  by (simp add: open_rb_def)


lemma looks_like_obj_text_total: "\<exists>b. looks_like_obj_text f p = Inr b"
proof (cases "open_rb f p")
  case (Inl e)
  then show ?thesis
    using open_rb_raises_Exception [OF Inl] by (auto simp add: looks_like_obj_text_def)
next
  case (Inr bs)
  then show ?thesis by (simp add: looks_like_obj_text_def Let_def)
qed

lemma looks_like_obj_text_True_File:
  "looks_like_obj_text f p = Inr True \<Longrightarrow> \<exists>bs. lookup f p = Some (File bs)"
  by (auto simp: looks_like_obj_text_def open_rb_def split: option.splits node.splits if_splits)

lemma sys_print_line [simp]: "sys (print_line s w) = sys w"
  by (simp add: print_line_def)

lemma calls_print_line [simp]: "calls (print_line s w) = calls w"
  by (simp add: print_line_def)

lemma out_print_line [simp]: "out (print_line s w) = out w @ [s]"
  by (simp add: print_line_def)

lemma cwd_set_cwd [simp]: "cwd (sys (set_cwd d w)) = d"
  by (simp add: set_cwd_def)

lemma fs_set_cwd [simp]: "fs (sys (set_cwd d w)) = fs (sys w)"
  by (simp add: set_cwd_def)

lemma out_set_cwd [simp]: "out (set_cwd d w) = out w"
  by (simp add: set_cwd_def)

lemma calls_set_cwd [simp]: "calls (set_cwd d w) = calls w"
  by (simp add: set_cwd_def)

lemma cwd_set_fs [simp]: "cwd (sys (set_fs f w)) = cwd (sys w)"
  by (simp add: set_fs_def)

lemma fs_set_fs [simp]: "fs (sys (set_fs f w)) = f"
  by (simp add: set_fs_def)

lemma out_set_fs [simp]: "out (set_fs f w) = out w"
  by (simp add: set_fs_def)

lemma calls_set_fs [simp]: "calls (set_fs f w) = calls w"
  by (simp add: set_fs_def)

lemma sys_job_announce [simp]: "sys (job_announce img d w) = sys w"
  by (simp add: job_announce_def)

lemma calls_job_announce [simp]: "calls (job_announce img d w) = calls w"
  by (simp add: job_announce_def)

lemma chdir_there: "lookup (fs (sys w)) d = Some Dir \<Longrightarrow> chdir d w = (set_cwd d w, Inr ())"
  by (simp add: chdir_def)

lemma chdir_gone:
  "lookup (fs (sys w)) d \<noteq> Some Dir \<Longrightarrow> \<exists>e. chdir d w = (w, Inl e) \<and> is_Exception e"
  by (auto simp: chdir_def os_error_def is_Exception_def split: option.splits node.splits)

lemma chdir_Inr: "chdir d w = (w', Inr u) \<Longrightarrow> w' = set_cwd d w \<and> lookup (fs (sys w)) d = Some Dir"
  by (auto simp: chdir_def split: option.splits node.splits)

lemma chdir_Inl: "chdir d w = (w', Inl e) \<Longrightarrow> w' = w"
  by (auto simp: chdir_def split: option.splits node.splits)

lemma ensure_dir_lookup: "lookup f q = Some n \<Longrightarrow> lookup (ensure_dir p f) q = Some n"
  by (auto simp: ensure_dir_def lookup_def)

lemma fold_ensure_dir_lookup:
  "lookup f q = Some n \<Longrightarrow> lookup (fold ensure_dir ps f) q = Some n"
  by (induction ps arbitrary: f) (simp_all add: ensure_dir_lookup)

lemma mkdir_step_keeps:
  assumes "mkdir_step p w = (w1, Inr u)"
  shows "cwd (sys w1) = cwd (sys w)" and "out w1 = out w" and "calls w1 = calls w"
    and "lookup (fs (sys w)) q = Some n \<Longrightarrow> lookup (fs (sys w1)) q = Some n"
  using assms
  by (auto simp: mkdir_step_def mkdir_p_def fold_ensure_dir_lookup split: if_splits)

lemma mkdir_step_fails: "mkdir_step p w = (w1, Inl e) \<Longrightarrow> w1 = w"
  by (auto simp: mkdir_step_def split: sum.splits)

lemma image_open_lookup:
  "image_open ext f p = Inr im \<Longrightarrow> \<exists>bs. lookup f p = Some (File bs) \<and> decode ext bs = Some im"
  by (auto simp: image_open_def open_rb_def split: option.splits node.splits sum.splits)

lemma image_open_File:
  "lookup f p = Some (File bs) \<Longrightarrow> decode ext bs = Some im \<Longrightarrow> image_open ext f p = Inr im"
  by (simp add: image_open_def open_rb_def)

lemma convert_mode: "convert ext im m = Inr im' \<Longrightarrow> mode im' = m"
  by (auto simp: convert_def split: sum.splits)

lemma glb_obj_distinct:
  "path_join d (stem @ ''_textured.glb'') \<noteq> path_join d (stem @ ''_textured.obj'')"
  by (simp add: path_join_def)

text \<open>
  The destination that \<open>stages\<close> hands to \<open>remove_background_to_png\<close> always carries
  the extension \<^verbatim>\<open>.png\<close>, whatever the stem.
\<close>

lemma bgremoved_suffix: "path_suffix (path_join d (stem @ ''_bgremoved.png'')) = ''.png''"
  by (simp add: path_suffix_def path_join_def path_name_def name_suffix_def rfind_dot_def Let_def
      dropWhile_append)

section \<open>One job: set-up, \<^verbatim>\<open>except\<close>, \<^verbatim>\<open>finally\<close> (lines 205-263)\<close>

lemma job_setup_Inr:
  assumes "job_setup od img w = (w1, Inr (d, stem, old))"
  shows "old = cwd (sys w)" and "cwd (sys w1) = d"
proof -
  obtain wa where m: "mkdir_step (path_resolve (path_join od (path_stem img))) w = (wa, Inr ())"
    using assms
    by (cases "mkdir_step (path_resolve (path_join od (path_stem img))) w")
       (auto simp: job_setup_def Let_def and_then_def split: sum.splits)
  have c: "cwd (sys wa) = cwd (sys w)"
    using mkdir_step_keeps(1) [OF m] .
  have rest: "and_then (job_announce img (path_resolve (path_join od (path_stem img))) wa,
                 getcwd (job_announce img (path_resolve (path_join od (path_stem img))) wa))
               (\<lambda>old_cwd w. and_then (chdir (path_resolve (path_join od (path_stem img))) w)
                  (\<lambda>_ w. (w, Inr (path_resolve (path_join od (path_stem img)), path_stem img, old_cwd))))
             = (w1, Inr (d, stem, old))"
    using assms m by (simp add: job_setup_def Let_def and_then_def)
  then have g: "getcwd (job_announce img (path_resolve (path_join od (path_stem img))) wa) = Inr old"
    by (auto simp: and_then_def split: sum.splits prod.splits)
  then show "old = cwd (sys w)"
    using c by (auto simp: getcwd_def split: if_splits)
  have "chdir d (job_announce img d wa) = (w1, Inr ())"
    using rest g by (auto simp: and_then_def split: sum.splits prod.splits)
  then show "cwd (sys w1) = d"
    using chdir_Inr by fastforce
qed

lemma job_setup_Inl:
  assumes "job_setup od img w = (w1, Inl e)"
  shows "cwd (sys w1) = cwd (sys w)"
proof (cases "mkdir_step (path_resolve (path_join od (path_stem img))) w")
  case (Pair wa r)
  show ?thesis
  proof (cases r)
    case (Inl e')
    then show ?thesis
      using assms Pair mkdir_step_fails [of _ w wa e']
      by (auto simp: job_setup_def Let_def and_then_def)
  next
    case (Inr u)
    have c: "cwd (sys wa) = cwd (sys w)"
      using mkdir_step_keeps(1) [of _ w wa u] Pair Inr by simp
    show ?thesis
      using assms Pair Inr c
      by (auto simp: job_setup_def Let_def and_then_def dest: chdir_Inl split: sum.splits prod.splits)
  qed
qed

lemma process_image_setup_fails:
  "job_setup od img w = (w1, Inl e) \<Longrightarrow> process_image ext a sp pp od img w = (w1, Inl e)"
  by (simp add: process_image_def and_then_def)

lemma process_image_unfold:
  "job_setup od img w = (w1, Inr (d, stem, old)) \<Longrightarrow>
     process_image ext a sp pp od img w = job_leave img old (job_body ext a sp pp img d stem w1)"
  by (simp add: process_image_def and_then_def)

lemma job_leave_restored:
  assumes "lookup (fs (sys w2)) old = Some Dir"
  shows "job_leave img old (w2, Inr u) = (set_cwd old w2, Inr ())"
    and "is_Exception e \<Longrightarrow> job_leave img old (w2, Inl e) =
           (set_cwd old (print_line (''[ERROR] Failed on '' @ path_name img @ '': '' @ msg e) w2), Inr ())"
    and "\<not> is_Exception e \<Longrightarrow> job_leave img old (w2, Inl e) = (set_cwd old w2, Inl e)"
  using assms by (simp_all add: job_leave_def chdir_there)

lemma job_leave_not_restored:
  assumes "lookup (fs (sys w2)) old \<noteq> Some Dir"
  shows "\<exists>e'. snd (job_leave img old (w2, r)) = Inl e' \<and> is_Exception e'"
    and "cwd (sys (fst (job_leave img old (w2, r)))) = cwd (sys w2)"
proof -
  obtain e2 where c: "chdir old w2 = (w2, Inl e2)" and x: "is_Exception e2"
    using chdir_gone [OF assms] by blast
  have "lookup (fs (sys (print_line s w2))) old \<noteq> Some Dir" for s
    using assms by simp
  then have p: "\<exists>e3. chdir old (print_line s w2) = (print_line s w2, Inl e3) \<and> is_Exception e3" for s
    by (rule chdir_gone)
  show "\<exists>e'. snd (job_leave img old (w2, r)) = Inl e' \<and> is_Exception e'"
  proof (cases r)
    case (Inr u)
    then show ?thesis using c x by (simp add: job_leave_def)
  next
    case (Inl e)
    obtain e3 where "chdir old (print_line (''[ERROR] Failed on '' @ path_name img @ '': '' @ msg e) w2)
        = (print_line (''[ERROR] Failed on '' @ path_name img @ '': '' @ msg e) w2, Inl e3)"
      and "is_Exception e3"
      using p by blast
    then show ?thesis using Inl c x by (simp add: job_leave_def)
  qed
  show "cwd (sys (fst (job_leave img old (w2, r)))) = cwd (sys w2)"
  proof (cases r)
    case (Inr u)
    then show ?thesis using c by (simp add: job_leave_def)
  next
    case (Inl e)
    obtain e3 where "chdir old (print_line (''[ERROR] Failed on '' @ path_name img @ '': '' @ msg e) w2)
        = (print_line (''[ERROR] Failed on '' @ path_name img @ '': '' @ msg e) w2, Inl e3)"
      using p by blast
    then show ?thesis using Inl c by (simp add: job_leave_def)
  qed
qed

text \<open>
  C2, as the code has it. The working directory is read before \<^verbatim>\<open>os.chdir(per_item_dir)\<close>,
  and \<^verbatim>\<open>os.chdir(old_cwd)\<close> runs in the \<^verbatim>\<open>finally\<close> clause on every way out of the \<^verbatim>\<open>try\<close>
  block. A job that fails before it has changed directory leaves the working directory
  alone. A job that got into the \<^verbatim>\<open>try\<close> block ends with the working directory it started
  with, whether the block ended normally, with a caught exception or with one that leaves
  the loop, provided the saved directory is still a directory when the block ends. If it
  is not, the restoring call raises, the job ends with that exception, and the working
  directory stays where the block left it.
\<close>

theorem job_restores_cwd:
  "(job_setup od img w = (w1, Inl e) \<longrightarrow>
      process_image ext a sp pp od img w = (w1, Inl e) \<and> cwd (sys w1) = cwd (sys w))
   \<and> (job_setup od img w = (w1, Inr (d, stem, old)) \<and> job_body ext a sp pp img d stem w1 = (w2, r) \<longrightarrow>
        old = cwd (sys w)
        \<and> (lookup (fs (sys w2)) old = Some Dir \<longrightarrow>
             cwd (sys (fst (process_image ext a sp pp od img w))) = cwd (sys w))
        \<and> (lookup (fs (sys w2)) old \<noteq> Some Dir \<longrightarrow>
             (\<exists>e'. snd (process_image ext a sp pp od img w) = Inl e')
             \<and> cwd (sys (fst (process_image ext a sp pp od img w))) = cwd (sys w2)))"
proof -
  have a: "process_image ext a sp pp od img w = (w1, Inl e) \<and> cwd (sys w1) = cwd (sys w)"
    if "job_setup od img w = (w1, Inl e)"
    using that process_image_setup_fails [OF that] job_setup_Inl [OF that] by simp
  have b: "old = cwd (sys w)
        \<and> (lookup (fs (sys w2)) old = Some Dir \<longrightarrow>
             cwd (sys (fst (process_image ext a sp pp od img w))) = cwd (sys w))
        \<and> (lookup (fs (sys w2)) old \<noteq> Some Dir \<longrightarrow>
             (\<exists>e'. snd (process_image ext a sp pp od img w) = Inl e')
             \<and> cwd (sys (fst (process_image ext a sp pp od img w))) = cwd (sys w2))"
    if s: "job_setup od img w = (w1, Inr (d, stem, old))"
      and j: "job_body ext a sp pp img d stem w1 = (w2, r)"
  proof -
    have o: "old = cwd (sys w)"
      using job_setup_Inr(1) [OF s] .
    have p: "process_image ext a sp pp od img w = job_leave img old (w2, r)"
      using process_image_unfold [OF s] j by simp
    have yes: "cwd (sys (fst (job_leave img old (w2, r)))) = old"
      if g: "lookup (fs (sys w2)) old = Some Dir"
    proof (cases r)
      case (Inr u)
      then show ?thesis using job_leave_restored(1) [OF g] by simp
    next
      case (Inl x)
      then show ?thesis
        using job_leave_restored(2) [OF g, of x img] job_leave_restored(3) [OF g, of x img]
        by (cases "is_Exception x") simp_all
    qed
    show ?thesis
      using o p yes job_leave_not_restored [of w2 old img r] by auto
  qed
  show ?thesis
    using a b by blast
qed

text \<open>
  Three runs of the first job. With a regular file in the way of the job's directory the
  job fails before changing directory. With a paint stage that exits the interpreter the
  exception leaves the job and the working directory is \<^verbatim>\<open>/home\<close> again. With a paint
  stage that removes \<^verbatim>\<open>/home\<close> the restoring call raises and the working directory
  stays in the job's directory.
\<close>

theorem job_restores_cwd_witness:
  "snd (job_setup out_dir cat_png (set_fs [([''app'', ''output'', ''cat''], File ''x'')] demo_world))
     = Inl (os_error ''FileExistsError'' [''app'', ''output'', ''cat''])
   \<and> cwd (sys (fst (process_image demo_ext demo_args 1 2 out_dir cat_png
          (set_fs [([''app'', ''output'', ''cat''], File ''x'')] demo_world)))) = [''home'']
   \<and> snd (process_image ext_sysexit demo_args 1 2 out_dir cat_png demo_world)
       = Inl (Exn SystemExitingK ''SystemExit'' ''1'')
   \<and> cwd (sys (fst (process_image ext_sysexit demo_args 1 2 out_dir cat_png demo_world))) = [''home'']
   \<and> (\<exists>e'. snd (process_image ext_rmhome demo_args 1 2 out_dir cat_png demo_world) = Inl e')
   \<and> cwd (sys (fst (process_image ext_rmhome demo_args 1 2 out_dir cat_png demo_world)))
       = [''app'', ''output'', ''cat'']"
proof -
  let ?blocked = "set_fs [([''app'', ''output'', ''cat''], File ''x'')] demo_world"
  let ?d = "[''app'', ''output'', ''cat'']"
  let ?ws = "fst (job_setup out_dir cat_png demo_world)"
  let ?wx = "fst (job_body ext_sysexit demo_args 1 2 cat_png ?d ''cat'' ?ws)"
  let ?wr = "fst (job_body ext_rmhome demo_args 1 2 cat_png ?d ''cat'' ?ws)"
  have home: "cwd (sys demo_world) = [''home'']" and homeb: "cwd (sys ?blocked) = [''home'']"
    by (simp_all add: demo_world_def set_fs_def)
  have s0: "job_setup out_dir cat_png ?blocked
              = (fst (job_setup out_dir cat_png ?blocked), Inl (os_error ''FileExistsError'' ?d))"
    by (simp add: model_defs demo_defs)
  have s0': "snd (job_setup out_dir cat_png ?blocked) = Inl (os_error ''FileExistsError'' ?d)"
    by (simp add: model_defs demo_defs)
  have s: "job_setup out_dir cat_png demo_world = (?ws, Inr (?d, ''cat'', [''home'']))"
    by (simp add: model_defs demo_defs)
  have bx: "job_body ext_sysexit demo_args 1 2 cat_png ?d ''cat'' ?ws
              = (?wx, Inl (Exn SystemExitingK ''SystemExit'' ''1''))"
    by (simp add: model_defs demo_defs)
  have br: "job_body ext_rmhome demo_args 1 2 cat_png ?d ''cat'' ?ws = (?wr, Inr ())"
    by (simp add: model_defs demo_defs)
  have hx: "lookup (fs (sys ?wx)) [''home''] = Some Dir"
    by (simp add: model_defs demo_defs)
  have hr: "lookup (fs (sys ?wr)) [''home''] \<noteq> Some Dir" and cr: "cwd (sys ?wr) = ?d"
    by (simp_all add: model_defs demo_defs)
  note t0 = job_restores_cwd [of out_dir cat_png ?blocked "fst (job_setup out_dir cat_png ?blocked)"
      "os_error ''FileExistsError'' ?d" demo_ext demo_args 1 2, THEN conjunct1, rule_format, OF s0]
  note tx = job_restores_cwd [of out_dir cat_png demo_world ?ws _ ext_sysexit demo_args 1 2
      ?d "''cat''" "[''home'']" ?wx "Inl (Exn SystemExitingK ''SystemExit'' ''1'')",
      THEN conjunct2, rule_format, OF conjI [OF s bx]]
  note tr = job_restores_cwd [of out_dir cat_png demo_world ?ws _ ext_rmhome demo_args 1 2
      ?d "''cat''" "[''home'']" ?wr "Inr ()", THEN conjunct2, rule_format, OF conjI [OF s br]]
  have p0: "cwd (sys (fst (process_image demo_ext demo_args 1 2 out_dir cat_png ?blocked))) = [''home'']"
    using t0 homeb by simp
  have px: "cwd (sys (fst (process_image ext_sysexit demo_args 1 2 out_dir cat_png demo_world))) = [''home'']"
    using tx hx home by simp
  have ex: "snd (process_image ext_sysexit demo_args 1 2 out_dir cat_png demo_world)
              = Inl (Exn SystemExitingK ''SystemExit'' ''1'')"
    by (simp add: model_defs demo_defs)
  have pr: "(\<exists>e'. snd (process_image ext_rmhome demo_args 1 2 out_dir cat_png demo_world) = Inl e')
            \<and> cwd (sys (fst (process_image ext_rmhome demo_args 1 2 out_dir cat_png demo_world))) = ?d"
    using tr hr cr by simp
  show ?thesis
    using s0' p0 ex px pr by simp
qed

text \<open>
  C2 as stated ("on every exit path", "after any job finishes") does not hold: the paint
  stage of this run removes the directory the program was started from. The \<^verbatim>\<open>try\<close> block
  ends normally, \<^verbatim>\<open>os.chdir(old_cwd)\<close> in the \<^verbatim>\<open>finally\<close> clause raises
  \<^verbatim>\<open>FileNotFoundError\<close>, and the job ends in \<^verbatim>\<open>/app/output/cat\<close>, not in \<^verbatim>\<open>/home\<close>.
\<close>

theorem cwd_always_restored_counterexample:
  "cwd (sys demo_world) = [''home'']
   \<and> snd (process_image ext_rmhome demo_args 1 2 out_dir cat_png demo_world)
       = Inl (Exn ExceptionK ''FileNotFoundError'' ''/home'')
   \<and> cwd (sys (fst (process_image ext_rmhome demo_args 1 2 out_dir cat_png demo_world)))
       = [''app'', ''output'', ''cat'']"
  by (simp add: model_defs demo_defs)

section \<open>Failure isolation (lines 204-263)\<close>




section \<open>Background removal (lines 94-127)\<close>

text \<open>
  C3, as the code has it. Alpha is only looked for in files whose extension, lowercased,
  is \<^verbatim>\<open>.png\<close>. For such a source, if PIL opens it and the image carries alpha in the spec's
  sense (mode RGBA or LA, or a palette image with a transparency entry), background
  removal without force returns the source path and leaves the world as it was: no file
  written, no directory made, no call to the removal model.
\<close>

theorem alpha_png_used_directly:
  assumes "lower (path_suffix src) = ''.png''"
      and "image_open ext (fs (sys w)) src = Inr im"
      and "spec_carries_alpha im"
  shows "remove_background_to_png ext src dst False w = (w, Inr src)"
proof -
  have "has_alpha_png ext (fs (sys w)) src = Inr True"
    using assms by (auto simp: has_alpha_png_def spec_carries_alpha_def)
  then show ?thesis
    by (simp add: remove_background_to_png_def)
qed

theorem alpha_png_used_directly_witness:
  "lower (path_suffix icon_png) = ''.png''
   \<and> image_open demo_ext (fs (sys demo_world)) icon_png = Inr \<lparr>mode = ''RGBA'', info = [], pixels = []\<rparr>
   \<and> spec_carries_alpha \<lparr>mode = ''RGBA'', info = [], pixels = []\<rparr>
   \<and> remove_background_to_png demo_ext icon_png [''app'', ''output'', ''icon'', ''icon_bgremoved.png'']
        False demo_world = (demo_world, Inr icon_png)"
proof -
  have s: "lower (path_suffix icon_png) = ''.png''"
    by (simp add: model_defs demo_defs)
  have i: "image_open demo_ext (fs (sys demo_world)) icon_png
             = Inr \<lparr>mode = ''RGBA'', info = [], pixels = []\<rparr>"
    by (simp add: model_defs demo_defs)
  have c: "spec_carries_alpha \<lparr>mode = ''RGBA'', info = [], pixels = []\<rparr>"
    by (simp add: spec_carries_alpha_def)
  show ?thesis
    using s i c alpha_png_used_directly [OF s i c, of "[''app'', ''output'', ''icon'', ''icon_bgremoved.png'']"]
    by simp
qed

text \<open>
  C3 as stated ("every source image that already carries an alpha channel") does not hold:
  \<^verbatim>\<open>dog.webp\<close> opens in mode RGBA, and background removal without force still runs the
  model, writes \<^verbatim>\<open>dog_bgremoved.png\<close> and returns that path instead of the source.
\<close>

theorem alpha_source_noop_counterexample:
  "image_open demo_ext (fs (sys demo_world)) dog_webp = Inr \<lparr>mode = ''RGBA'', info = [], pixels = []\<rparr>
   \<and> spec_carries_alpha \<lparr>mode = ''RGBA'', info = [], pixels = []\<rparr>
   \<and> snd (remove_background_to_png demo_ext dog_webp [''app'', ''output'', ''dog'', ''dog_bgremoved.png'']
            False demo_world) = Inr [''app'', ''output'', ''dog'', ''dog_bgremoved.png'']
   \<and> lookup (fs (sys demo_world)) [''app'', ''output'', ''dog'', ''dog_bgremoved.png''] = None
   \<and> lookup (fs (sys (fst (remove_background_to_png demo_ext dog_webp
              [''app'', ''output'', ''dog'', ''dog_bgremoved.png''] False demo_world))))
        [''app'', ''output'', ''dog'', ''dog_bgremoved.png''] = Some (File ''RGBA'')
   \<and> calls (fst (remove_background_to_png demo_ext dog_webp
              [''app'', ''output'', ''dog'', ''dog_bgremoved.png''] False demo_world)) = [Rembg]"
  by (simp add: model_defs demo_defs)

lemma removal_runs:
  assumes gate: "(if force then Inr False else has_alpha_png ext (fs (sys w)) src) = Inr False"
      and op: "image_open ext (fs (sys w)) src = Inr im"
      and mk: "mkdir_step (path_parent dst) w = (w1, Inr ())"
      and c1: "(if mode im \<noteq> ''RGB'' then convert ext im ''RGB'' else Inr im) = Inr rgb"
      and rb: "rembg ext (sys w1) rgb = (s2, Inr res)"
      and c2: "convert ext res ''RGBA'' = Inr rgba"
      and enc: "encode ext (lower (path_suffix dst)) rgba = Some bs"
      and par: "lookup (fs s2) (path_parent dst) = Some Dir"
      and nd: "lookup (fs s2) dst \<noteq> Some Dir"
      and nu: "lookup (fs s2) dst \<noteq> Some Unreachable"
  shows "\<exists>w'. remove_background_to_png ext src dst force w = (w', Inr dst)
           \<and> lookup (fs (sys w')) dst = Some (File bs)
           \<and> calls w' = calls w @ [Rembg]
           \<and> mode rgb = ''RGB''
           \<and> mode rgba = ''RGBA''"
proof -
  obtain bs0 where f0: "lookup (fs (sys w)) src = Some (File bs0)" and d0: "decode ext bs0 = Some im"
    using image_open_lookup [OF op] by blast
  have op1: "image_open ext (fs (sys w1)) src = Inr im"
    using mkdir_step_keeps(4) [OF mk f0] d0 by (rule image_open_File)
  let ?wb = "w1\<lparr>sys := s2, calls := calls w1 @ [Rembg]\<rparr>"
  have c: "call_ext Rembg (\<lambda>s. rembg ext s rgb) w1 = (?wb, Inr res)"
    using rb by (simp add: call_ext_def)
  let ?wc = "set_fs (fs_write (fs s2) dst (File bs)) ?wb"
  have sv: "image_save ext rgba dst ?wb = (?wc, Inr ())"
    using enc par nd nu by (simp add: image_save_def)
  have run: "remove_background_to_png ext src dst force w = (?wc, Inr dst)"
    unfolding remove_background_to_png_def gate
    using mk op1 c1 c c2 sv by (simp add: and_then_def)
  have "lookup (fs (sys ?wc)) dst = Some (File bs)"
    by (simp add: lookup_fs_write)
  moreover have "calls ?wc = calls w @ [Rembg]"
    using mkdir_step_keeps(3) [OF mk] by simp
  moreover have "mode rgb = ''RGB''"
    using c1 convert_mode [of ext im "''RGB''" rgb] by (auto split: if_splits)
  moreover have "mode rgba = ''RGBA''"
    using c2 by (rule convert_mode)
  ultimately show ?thesis
    using run by blast
qed

text \<open>
  C9. A path whose extension, lowercased, is not \<^verbatim>\<open>.png\<close> is never reported as having
  alpha, whatever the file holds; so background removal without force does on it exactly
  what forced removal does. In particular, when the source opens as an image (with or
  without alpha) and the steps of the removal succeed, the removal model is called, its
  result is written to the destination, and the destination path, not the source, is
  returned.
\<close>

theorem non_png_always_removed:
  assumes "lower (path_suffix p) \<noteq> ''.png''"
  shows "has_alpha_png ext f p = Inr False
         \<and> remove_background_to_png ext p dst False w = remove_background_to_png ext p dst True w
         \<and> (\<forall>im w1 rgb s2 res rgba bs.
               image_open ext (fs (sys w)) p = Inr im
               \<and> mkdir_step (path_parent dst) w = (w1, Inr ())
               \<and> (if mode im \<noteq> ''RGB'' then convert ext im ''RGB'' else Inr im) = Inr rgb
               \<and> rembg ext (sys w1) rgb = (s2, Inr res)
               \<and> convert ext res ''RGBA'' = Inr rgba
               \<and> encode ext (lower (path_suffix dst)) rgba = Some bs
               \<and> lookup (fs s2) (path_parent dst) = Some Dir
               \<and> lookup (fs s2) dst \<noteq> Some Dir \<and> lookup (fs s2) dst \<noteq> Some Unreachable
             \<longrightarrow> (\<exists>w'. remove_background_to_png ext p dst False w = (w', Inr dst)
                     \<and> lookup (fs (sys w')) dst = Some (File bs)
                     \<and> calls w' = calls w @ [Rembg]))"
proof -
  have h: "has_alpha_png ext f p = Inr False" for f
    using assms by (simp add: has_alpha_png_def)
  have e: "remove_background_to_png ext p dst False w = remove_background_to_png ext p dst True w"
    using h by (simp add: remove_background_to_png_def)
  have gate: "(if False then Inr False else has_alpha_png ext (fs (sys w)) p) = Inr False"
    using h by simp
  have r: "\<exists>w'. remove_background_to_png ext p dst False w = (w', Inr dst)
                     \<and> lookup (fs (sys w')) dst = Some (File bs)
                     \<and> calls w' = calls w @ [Rembg]"
    if "image_open ext (fs (sys w)) p = Inr im"
      and "mkdir_step (path_parent dst) w = (w1, Inr ())"
      and "(if mode im \<noteq> ''RGB'' then convert ext im ''RGB'' else Inr im) = Inr rgb"
      and "rembg ext (sys w1) rgb = (s2, Inr res)"
      and "convert ext res ''RGBA'' = Inr rgba"
      and "encode ext (lower (path_suffix dst)) rgba = Some bs"
      and "lookup (fs s2) (path_parent dst) = Some Dir"
      and "lookup (fs s2) dst \<noteq> Some Dir" and "lookup (fs s2) dst \<noteq> Some Unreachable"
    for im w1 rgb s2 res rgba bs
    using removal_runs [OF gate that] by blast
  show ?thesis
    using h e r by blast
qed

text \<open>
  \<^verbatim>\<open>dog.webp\<close> opens in mode RGBA. Without force it is still sent through the removal
  model, and \<^verbatim>\<open>dog_bgremoved.png\<close> is written and returned.
\<close>

theorem non_png_always_removed_witness:
  "lower (path_suffix dog_webp) \<noteq> ''.png''
   \<and> has_alpha_png demo_ext (fs (sys demo_world)) dog_webp = Inr False
   \<and> remove_background_to_png demo_ext dog_webp [''app'', ''output'', ''dog'', ''dog_bgremoved.png'']
        False demo_world
     = remove_background_to_png demo_ext dog_webp [''app'', ''output'', ''dog'', ''dog_bgremoved.png'']
        True demo_world
   \<and> image_open demo_ext (fs (sys demo_world)) dog_webp = Inr \<lparr>mode = ''RGBA'', info = [], pixels = []\<rparr>
   \<and> (\<exists>w'. remove_background_to_png demo_ext dog_webp [''app'', ''output'', ''dog'', ''dog_bgremoved.png'']
              False demo_world = (w', Inr [''app'', ''output'', ''dog'', ''dog_bgremoved.png''])
          \<and> lookup (fs (sys w')) [''app'', ''output'', ''dog'', ''dog_bgremoved.png''] = Some (File ''RGBA'')
          \<and> calls w' = [Rembg])"
proof -
  let ?dst = "[''app'', ''output'', ''dog'', ''dog_bgremoved.png'']"
  let ?im = "\<lparr>mode = ''RGBA'', info = [], pixels = []\<rparr>"
  let ?rgb = "\<lparr>mode = ''RGB'', info = [], pixels = []\<rparr>"
  let ?res = "\<lparr>mode = ''LA'', info = [], pixels = []\<rparr>"
  let ?wm = "fst (mkdir_step (path_parent ?dst) demo_world)"
  have s: "lower (path_suffix dog_webp) \<noteq> ''.png''"
    by (simp add: model_defs demo_defs)
  have op: "image_open demo_ext (fs (sys demo_world)) dog_webp = Inr ?im"
    by (simp add: model_defs demo_defs)
  have mk: "mkdir_step (path_parent ?dst) demo_world = (?wm, Inr ())"
    by (simp add: model_defs demo_defs)
  have c1: "(if mode ?im \<noteq> ''RGB'' then convert demo_ext ?im ''RGB'' else Inr ?im) = Inr ?rgb"
    by (simp add: demo_ext_def convert_def)
  have rb: "rembg demo_ext (sys ?wm) ?rgb = (sys ?wm, Inr ?res)"
    by (simp add: demo_ext_def)
  have c2: "convert demo_ext ?res ''RGBA'' = Inr ?im"
    by (simp add: demo_ext_def convert_def)
  have enc: "encode demo_ext (lower (path_suffix ?dst)) ?im = Some ''RGBA''"
    by (simp add: model_defs demo_ext_def)
  have par: "lookup (fs (sys ?wm)) (path_parent ?dst) = Some Dir"
    by (simp add: model_defs demo_defs)
  have nd: "lookup (fs (sys ?wm)) ?dst \<noteq> Some Dir" and nu: "lookup (fs (sys ?wm)) ?dst \<noteq> Some Unreachable"
    by (simp_all add: model_defs demo_defs)
  note t = non_png_always_removed [OF s, of demo_ext "fs (sys demo_world)" ?dst demo_world]
  note r = t [THEN conjunct2, THEN conjunct2, rule_format,
      OF conjI [OF op conjI [OF mk conjI [OF c1 conjI [OF rb conjI [OF c2 conjI [OF enc
           conjI [OF par conjI [OF nd nu]]]]]]]]]
  have c: "calls demo_world = []"
    by (simp add: demo_world_def)
  show ?thesis
    using s op t r c by simp
qed




section \<open>Output verification (lines 70-91, 247-258)\<close>

text \<open>
  C4. For a regular file with content \<open>bs\<close>, the signature check answers whether the
  first four bytes are \<^verbatim>\<open>glTF\<close>; a file shorter than four bytes is rejected. In the
  verification step, the paint output is accepted as it is (the line
  \<^verbatim>\<open>[OK] Textured GLB exported\<close>, nothing else changed) exactly when its first four bytes
  are that signature.
\<close>

theorem glb_signature_check:
  assumes "lookup f p = Some (File bs)"
  shows "is_valid_glb f p = Inr (take 4 bs = ''glTF'')
         \<and> (length bs < 4 \<longrightarrow> is_valid_glb f p = Inr False)
         \<and> (\<forall>d stem w. f = fs (sys w) \<and> p = path_join d (stem @ ''_textured.glb'') \<longrightarrow>
               (verify_output d stem w =
                  (print_line (''[OK] Textured GLB exported: '' @ stem @ ''_textured.glb'') w, Inr ()))
               = (take 4 bs = ''glTF''))"
proof -
  have g: "is_valid_glb f p = Inr (take 4 bs = ''glTF'')"
    using assms by (simp add: is_valid_glb_def open_rb_def)
  have s: "length bs < 4 \<longrightarrow> is_valid_glb f p = Inr False"
    using g by auto
  have v: "(verify_output d stem w =
              (print_line (''[OK] Textured GLB exported: '' @ stem @ ''_textured.glb'') w, Inr ()))
           = (take 4 bs = ''glTF'')"
    if f: "f = fs (sys w)" and p: "p = path_join d (stem @ ''_textured.glb'')" for d stem w
  proof (cases "take 4 bs = ''glTF''")
    case True
    then show ?thesis
      using assms g f p
      by (simp add: verify_output_def Let_def path_exists_def path_name_def path_join_def)
  next
    case False
    obtain c where c: "looks_like_obj_text f p = Inr c"
      using looks_like_obj_text_total by blast
    have "out (fst (verify_output d stem w)) \<noteq>
          out (print_line (''[OK] Textured GLB exported: '' @ stem @ ''_textured.glb'') w)"
      using assms g f p c False
      by (cases c)
         (auto simp add: verify_output_def Let_def path_exists_def os_replace_def
            split: option.splits node.splits)
    then show ?thesis
      using False by auto
  qed
  show ?thesis
    using g s v by blast
qed

text \<open>
  A file that starts with \<^verbatim>\<open>glTF\<close> is accepted; the two-byte file \<^verbatim>\<open>gl\<close> is not.
\<close>

theorem glb_signature_check_witness:
  "lookup (fs (sys (world_with_output ''glTF-binary''))) [''app'', ''output'', ''cat'', ''cat_textured.glb'']
     = Some (File ''glTF-binary'')
   \<and> is_valid_glb (fs (sys (world_with_output ''glTF-binary''))) [''app'', ''output'', ''cat'', ''cat_textured.glb'']
       = Inr True
   \<and> verify_output [''app'', ''output'', ''cat''] ''cat'' (world_with_output ''glTF-binary'')
       = (print_line ''[OK] Textured GLB exported: cat_textured.glb'' (world_with_output ''glTF-binary''), Inr ())
   \<and> length ''gl'' < (4::nat)
   \<and> is_valid_glb (fs (sys (world_with_output ''gl''))) [''app'', ''output'', ''cat'', ''cat_textured.glb'']
       = Inr False
   \<and> verify_output [''app'', ''output'', ''cat''] ''cat'' (world_with_output ''gl'')
       \<noteq> (print_line ''[OK] Textured GLB exported: cat_textured.glb'' (world_with_output ''gl''), Inr ())"
proof -
  let ?p = "[''app'', ''output'', ''cat'', ''cat_textured.glb'']"
  have l1: "lookup (fs (sys (world_with_output ''glTF-binary''))) ?p = Some (File ''glTF-binary'')"
    by (simp add: lookup_def world_with_output_def)
  have l2: "lookup (fs (sys (world_with_output ''gl''))) ?p = Some (File ''gl'')"
    by (simp add: lookup_def world_with_output_def)
  have j: "?p = path_join [''app'', ''output'', ''cat''] (''cat'' @ ''_textured.glb'')"
    by (simp add: path_join_def)
  note a = glb_signature_check [OF l1]
  note b = glb_signature_check [OF l2]
  note av = a [THEN conjunct2, THEN conjunct2, rule_format,
      where d = "[''app'', ''output'', ''cat'']" and stem = "''cat''"
        and w = "world_with_output ''glTF-binary''"]
  note bv = b [THEN conjunct2, THEN conjunct2, rule_format,
      where d = "[''app'', ''output'', ''cat'']" and stem = "''cat''"
        and w = "world_with_output ''gl''"]
  have a1: "is_valid_glb (fs (sys (world_with_output ''glTF-binary''))) ?p = Inr True"
    using a by simp
  have a2: "verify_output [''app'', ''output'', ''cat''] ''cat'' (world_with_output ''glTF-binary'')
       = (print_line ''[OK] Textured GLB exported: cat_textured.glb'' (world_with_output ''glTF-binary''), Inr ())"
    using av j by simp
  have b1: "is_valid_glb (fs (sys (world_with_output ''gl''))) ?p = Inr False"
    using b by simp
  have b2: "verify_output [''app'', ''output'', ''cat''] ''cat'' (world_with_output ''gl'')
       \<noteq> (print_line ''[OK] Textured GLB exported: cat_textured.glb'' (world_with_output ''gl''), Inr ())"
    using bv j by simp
  show ?thesis
    using l1 a1 a2 b1 b2 by simp
qed

text \<open>
  C5, as the code has it. The heuristic reads the first 64 bytes only. If the paint output
  is a regular file that fails the signature check, and its first 64 bytes contain
  \<^verbatim>\<open>mtllib\<close> or, after leading whitespace is stripped from those 64 bytes, begin with
  \<^verbatim>\<open>#\<close>, \<^verbatim>\<open>o \<close> or \<^verbatim>\<open>v \<close>, then the file is classified as text mesh and the rename to the
  \<^verbatim>\<open>.obj\<close> path is attempted. Unless the \<^verbatim>\<open>.obj\<close> path is a directory or cannot be reached,
  the file is moved there with its content and the \<^verbatim>\<open>[FIX]\<close> line is printed. If it is, the
  rename raises inside the \<^verbatim>\<open>try\<close> block and nothing is renamed or printed.
\<close>

theorem obj_text_in_head_renamed:
  assumes "lookup (fs (sys w)) (path_join d (stem @ ''_textured.glb'')) = Some (File bs)"
      and "take 4 bs \<noteq> ''glTF''"
      and "bytes_in ''mtllib'' (take 64 bs)
           \<or> startswith (lstrip (take 64 bs)) ''#''
           \<or> startswith (lstrip (take 64 bs)) ''o ''
           \<or> startswith (lstrip (take 64 bs)) ''v ''"
  shows "looks_like_obj_text (fs (sys w)) (path_join d (stem @ ''_textured.glb'')) = Inr True
         \<and> (lookup (fs (sys w)) (path_join d (stem @ ''_textured.obj'')) \<noteq> Some Dir
            \<and> lookup (fs (sys w)) (path_join d (stem @ ''_textured.obj'')) \<noteq> Some Unreachable
            \<longrightarrow> (\<exists>w'. verify_output d stem w = (w', Inr ())
                   \<and> lookup (fs (sys w')) (path_join d (stem @ ''_textured.glb'')) = None
                   \<and> lookup (fs (sys w')) (path_join d (stem @ ''_textured.obj'')) = Some (File bs)
                   \<and> out w' = out w @ [''[FIX] Output was OBJ text, renamed to: '' @ stem @ ''_textured.obj'']))
         \<and> (lookup (fs (sys w)) (path_join d (stem @ ''_textured.obj'')) = Some Dir
            \<longrightarrow> verify_output d stem w =
                  (w, Inl (os_error ''IsADirectoryError'' (path_join d (stem @ ''_textured.obj'')))))
         \<and> (lookup (fs (sys w)) (path_join d (stem @ ''_textured.obj'')) = Some Unreachable
            \<longrightarrow> verify_output d stem w =
                  (w, Inl (os_error ''OSError'' (path_join d (stem @ ''_textured.obj'')))))"
proof -
  let ?g = "path_join d (stem @ ''_textured.glb'')"
  let ?o = "path_join d (stem @ ''_textured.obj'')"
  have e: "path_exists (fs (sys w)) ?g = Inr True"
    using assms(1) by (simp add: path_exists_def)
  have g: "is_valid_glb (fs (sys w)) ?g = Inr False"
    using assms(1,2) by (simp add: is_valid_glb_def open_rb_def)
  have t: "looks_like_obj_text (fs (sys w)) ?g = Inr True"
    using assms(1,3) by (simp add: looks_like_obj_text_def open_rb_def Let_def)
  have n: "path_name ?o = stem @ ''_textured.obj''"
    by (simp add: path_name_def path_join_def)
  have ok: "\<exists>w'. verify_output d stem w = (w', Inr ())
                   \<and> lookup (fs (sys w')) ?g = None
                   \<and> lookup (fs (sys w')) ?o = Some (File bs)
                   \<and> out w' = out w @ [''[FIX] Output was OBJ text, renamed to: '' @ stem @ ''_textured.obj'']"
    if "lookup (fs (sys w)) ?o \<noteq> Some Dir" and "lookup (fs (sys w)) ?o \<noteq> Some Unreachable"
  proof -
    have r: "os_replace (fs (sys w)) ?g ?o = Inr (fs_write (fs_remove (fs (sys w)) ?g) ?o (File bs))"
      using assms(1) that by (auto simp: os_replace_def split: option.splits node.splits)
    have "verify_output d stem w =
            (print_line (''[FIX] Output was OBJ text, renamed to: '' @ stem @ ''_textured.obj'')
               (set_fs (fs_write (fs_remove (fs (sys w)) ?g) ?o (File bs)) w), Inr ())"
      using e g t n r by (simp add: verify_output_def Let_def)
    then show ?thesis
      using glb_obj_distinct [of d stem]
      by (simp add: lookup_fs_write lookup_fs_remove)
  qed
  have isdir: "verify_output d stem w = (w, Inl (os_error ''IsADirectoryError'' ?o))"
    if "lookup (fs (sys w)) ?o = Some Dir"
  proof -
    have "os_replace (fs (sys w)) ?g ?o = Inl (os_error ''IsADirectoryError'' ?o)"
      using assms(1) that by (simp add: os_replace_def)
    then show ?thesis
      using e g t by (simp add: verify_output_def Let_def)
  qed
  have unr: "verify_output d stem w = (w, Inl (os_error ''OSError'' ?o))"
    if "lookup (fs (sys w)) ?o = Some Unreachable"
  proof -
    have "os_replace (fs (sys w)) ?g ?o = Inl (os_error ''OSError'' ?o)"
      using assms(1) that by (simp add: os_replace_def)
    then show ?thesis
      using e g t by (simp add: verify_output_def Let_def)
  qed
  show ?thesis
    using t ok isdir unr by blast
qed

text \<open>
  An OBJ file that starts with a blank line and a comment is renamed; with a directory at
  the \<^verbatim>\<open>.obj\<close> path the rename raises and the file stays.
\<close>

theorem obj_text_in_head_renamed_witness:
  "lookup (fs (sys (world_with_output ''\<newline># OBJ\<newline>mtllib cat.mtl\<newline>'')))
      (path_join [''app'', ''output'', ''cat''] (''cat'' @ ''_textured.glb''))
     = Some (File ''\<newline># OBJ\<newline>mtllib cat.mtl\<newline>'')
   \<and> take 4 ''\<newline># OBJ\<newline>mtllib cat.mtl\<newline>'' \<noteq> ''glTF''
   \<and> startswith (lstrip (take 64 ''\<newline># OBJ\<newline>mtllib cat.mtl\<newline>'')) ''#''
   \<and> (\<exists>w'. verify_output [''app'', ''output'', ''cat''] ''cat''
               (world_with_output ''\<newline># OBJ\<newline>mtllib cat.mtl\<newline>'') = (w', Inr ())
          \<and> lookup (fs (sys w')) [''app'', ''output'', ''cat'', ''cat_textured.glb''] = None
          \<and> lookup (fs (sys w')) [''app'', ''output'', ''cat'', ''cat_textured.obj'']
              = Some (File ''\<newline># OBJ\<newline>mtllib cat.mtl\<newline>'')
          \<and> out w' = [''[FIX] Output was OBJ text, renamed to: cat_textured.obj''])
   \<and> verify_output [''app'', ''output'', ''cat''] ''cat''
        (set_fs (([''app'', ''output'', ''cat'', ''cat_textured.obj''], Dir)
                   # fs (sys (world_with_output ''\<newline># OBJ\<newline>mtllib cat.mtl\<newline>'')))
           (world_with_output ''\<newline># OBJ\<newline>mtllib cat.mtl\<newline>''))
      = (set_fs (([''app'', ''output'', ''cat'', ''cat_textured.obj''], Dir)
                   # fs (sys (world_with_output ''\<newline># OBJ\<newline>mtllib cat.mtl\<newline>'')))
           (world_with_output ''\<newline># OBJ\<newline>mtllib cat.mtl\<newline>''),
         Inl (os_error ''IsADirectoryError'' [''app'', ''output'', ''cat'', ''cat_textured.obj'']))"
proof -
  let ?bs = "''\<newline># OBJ\<newline>mtllib cat.mtl\<newline>''"
  let ?g = "path_join [''app'', ''output'', ''cat''] (''cat'' @ ''_textured.glb'')"
  let ?o = "path_join [''app'', ''output'', ''cat''] (''cat'' @ ''_textured.obj'')"
  let ?wd = "set_fs (([''app'', ''output'', ''cat'', ''cat_textured.obj''], Dir)
                       # fs (sys (world_with_output ?bs))) (world_with_output ?bs)"
  have l: "lookup (fs (sys (world_with_output ?bs))) ?g = Some (File ?bs)"
    by (simp add: lookup_def world_with_output_def path_join_def)
  have ld: "lookup (fs (sys ?wd)) ?g = Some (File ?bs)"
    by (simp add: lookup_def world_with_output_def path_join_def)
  have s: "take 4 ?bs \<noteq> ''glTF''"
    by simp
  have h: "startswith (lstrip (take 64 ?bs)) ''#''"
    by (simp add: startswith_def lstrip_def is_ws_def)
  have h': "bytes_in ''mtllib'' (take 64 ?bs)
           \<or> startswith (lstrip (take 64 ?bs)) ''#''
           \<or> startswith (lstrip (take 64 ?bs)) ''o ''
           \<or> startswith (lstrip (take 64 ?bs)) ''v ''"
    using h by blast
  have free: "lookup (fs (sys (world_with_output ?bs))) ?o \<noteq> Some Dir
              \<and> lookup (fs (sys (world_with_output ?bs))) ?o \<noteq> Some Unreachable"
    by (simp add: lookup_def world_with_output_def path_join_def)
  have taken: "lookup (fs (sys ?wd)) ?o = Some Dir"
    by (simp add: lookup_def path_join_def)
  note r = obj_text_in_head_renamed [OF l s h', THEN conjunct2, THEN conjunct1, rule_format, OF free]
  note q = obj_text_in_head_renamed [OF ld s h', THEN conjunct2, THEN conjunct2, THEN conjunct1,
      rule_format, OF taken]
  have o: "out (world_with_output ?bs) = []"
    by (simp add: world_with_output_def)
  show ?thesis
    using l s h r q o by (simp add: path_join_def)
qed

text \<open>
  C5 as stated ("contains a material-library reference") does not hold: this OBJ text
  fails the signature check and contains \<^verbatim>\<open>mtllib\<close>, but only from byte 67 on, and it
  begins with \<^verbatim>\<open>g \<close>. It is not classified as text mesh: it stays at the \<^verbatim>\<open>.glb\<close> path,
  nothing appears at the \<^verbatim>\<open>.obj\<close> path, and the warning is printed instead.
\<close>

theorem mtllib_anywhere_counterexample:
  "lookup (fs (sys (world_with_output late_mtllib))) [''app'', ''output'', ''cat'', ''cat_textured.glb'']
     = Some (File late_mtllib)
   \<and> is_valid_glb (fs (sys (world_with_output late_mtllib))) [''app'', ''output'', ''cat'', ''cat_textured.glb'']
       = Inr False
   \<and> bytes_in ''mtllib'' late_mtllib
   \<and> looks_like_obj_text (fs (sys (world_with_output late_mtllib)))
        [''app'', ''output'', ''cat'', ''cat_textured.glb''] = Inr False
   \<and> lookup (fs (sys (fst (verify_output [''app'', ''output'', ''cat''] ''cat'' (world_with_output late_mtllib)))))
        [''app'', ''output'', ''cat'', ''cat_textured.obj''] = None
   \<and> lookup (fs (sys (fst (verify_output [''app'', ''output'', ''cat''] ''cat'' (world_with_output late_mtllib)))))
        [''app'', ''output'', ''cat'', ''cat_textured.glb''] = Some (File late_mtllib)
   \<and> out (fst (verify_output [''app'', ''output'', ''cat''] ''cat'' (world_with_output late_mtllib)))
       = [''[WARN] Output exists but is not valid GLB and doesn't look like OBJ: cat_textured.glb'']"
  by (simp add: model_defs world_with_output_def late_mtllib_def)






section \<open>Input selection (lines 169-189)\<close>

text \<open>
  C8, as the code has it. Let the two \<^verbatim>\<open>mkdir\<close> calls at the start of \<^verbatim>\<open>main\<close> succeed. If
  no path is given (\<^verbatim>\<open>args.path\<close> is \<^verbatim>\<open>None\<close> or empty) and the input directory holds no
  image, \<^verbatim>\<open>main\<close> prints the two \<^verbatim>\<open>[INFO]\<close> lines and returns. If a path is given, lines
  176-178 resolve it, and the resolved path does not exist or is not a regular file,
  \<^verbatim>\<open>main\<close> prints the \<^verbatim>\<open>[ERROR]\<close> line and returns. If resolving the path raises, or
  \<^verbatim>\<open>exists()\<close> does, that exception leaves \<^verbatim>\<open>main\<close> and no message is printed. In all
  these cases the trace of external calls is what it was: neither pipeline was constructed.
\<close>

theorem no_input_no_pipeline:
  assumes m1: "mkdir_step (path_resolve (path_join (script_dir ext) ''input'')) w = (w1, Inr ())"
      and m2: "mkdir_step (path_resolve (path_join (script_dir ext) ''output'')) w1 = (w2, Inr ())"
  shows "((path_arg a = None \<or> path_arg a = Some [])
            \<and> collect_images (fs (sys w2)) (path_resolve (path_join (script_dir ext) ''input'')) = Inr []
          \<longrightarrow> main ext a w =
                (print_line ''[INFO] Put one or more images into ./input and run again, or use --path <file>.''
                   (print_line (''[INFO] No images found in: ''
                      @ path_str (path_resolve (path_join (script_dir ext) ''input''))) w2), Inr ())
              \<and> calls (fst (main ext a w)) = calls w)
       \<and> (\<forall>s single. path_arg a = Some s \<and> s \<noteq> []
              \<and> resolve_path ext (sys w2) s = Inr single
              \<and> (path_exists (fs (sys w2)) single = Inr False
                  \<or> (path_exists (fs (sys w2)) single = Inr True \<and> is_file (fs (sys w2)) single = Inr False))
          \<longrightarrow> main ext a w =
                (print_line (''[ERROR] --path file not found: '' @ path_str single) w2, Inr ())
              \<and> calls (fst (main ext a w)) = calls w)
       \<and> (\<forall>s e. path_arg a = Some s \<and> s \<noteq> []
              \<and> (resolve_path ext (sys w2) s = Inl e
                  \<or> (\<exists>single. resolve_path ext (sys w2) s = Inr single
                        \<and> path_exists (fs (sys w2)) single = Inl e))
          \<longrightarrow> main ext a w = (w2, Inl e) \<and> calls (fst (main ext a w)) = calls w)"
proof -
  have c: "calls w2 = calls w"
    using mkdir_step_keeps(3) [OF m1] mkdir_step_keeps(3) [OF m2] by simp
  have sel: "main ext a w =
               select_single ext a (path_resolve (path_join (script_dir ext) ''input''))
                 (path_resolve (path_join (script_dir ext) ''output'')) s w2"
    if "path_arg a = Some s" and "s \<noteq> []" for s
    using m1 m2 that by (simp add: main_def Let_def and_then_def)
  have p1: "main ext a w =
                (print_line ''[INFO] Put one or more images into ./input and run again, or use --path <file>.''
                   (print_line (''[INFO] No images found in: ''
                      @ path_str (path_resolve (path_join (script_dir ext) ''input''))) w2), Inr ())
              \<and> calls (fst (main ext a w)) = calls w"
    if "path_arg a = None \<or> path_arg a = Some []"
      and "collect_images (fs (sys w2)) (path_resolve (path_join (script_dir ext) ''input'')) = Inr []"
    using m1 m2 c that by (auto simp: main_def Let_def and_then_def run_batch_def)
  have p2: "main ext a w =
                (print_line (''[ERROR] --path file not found: '' @ path_str single) w2, Inr ())
              \<and> calls (fst (main ext a w)) = calls w"
    if "path_arg a = Some s" and "s \<noteq> []" and "resolve_path ext (sys w2) s = Inr single"
      and "path_exists (fs (sys w2)) single = Inr False
           \<or> (path_exists (fs (sys w2)) single = Inr True \<and> is_file (fs (sys w2)) single = Inr False)"
    for s single
    using sel [OF that(1,2)] that(3,4) c by (auto simp: select_single_def and_then_def)
  have p3: "main ext a w = (w2, Inl e) \<and> calls (fst (main ext a w)) = calls w"
    if "path_arg a = Some s" and "s \<noteq> []"
      and "resolve_path ext (sys w2) s = Inl e
           \<or> (\<exists>single. resolve_path ext (sys w2) s = Inr single
                 \<and> path_exists (fs (sys w2)) single = Inl e)"
    for s e
    using sel [OF that(1,2)] that(3) c by (auto simp: select_single_def and_then_def)
  show ?thesis
    using p1 p2 p3 by blast
qed

text \<open>
  An installation with an empty input directory, run without \<^verbatim>\<open>--path\<close>, with
  \<^verbatim>\<open>--path nope.png\<close>, and with \<^verbatim>\<open>--path ~nosuchuser/x.png\<close>.
\<close>

theorem no_input_no_pipeline_witness:
  "collect_images
      (fs (sys (fst (mkdir_step [''app'', ''output''] (fst (mkdir_step [''app'', ''input''] bare_world))))))
      [''app'', ''input''] = Inr []
   \<and> snd (main demo_ext demo_args bare_world) = Inr ()
   \<and> out (fst (main demo_ext demo_args bare_world))
       = [''[INFO] No images found in: /app/input'',
          ''[INFO] Put one or more images into ./input and run again, or use --path <file>.'']
   \<and> calls (fst (main demo_ext demo_args bare_world)) = []
   \<and> path_exists
         (fs (sys (fst (mkdir_step [''app'', ''output''] (fst (mkdir_step [''app'', ''input''] bare_world))))))
         [''home'', ''nope.png''] = Inr False
   \<and> snd (main demo_ext (demo_args\<lparr>path_arg := Some ''nope.png''\<rparr>) bare_world) = Inr ()
   \<and> out (fst (main demo_ext (demo_args\<lparr>path_arg := Some ''nope.png''\<rparr>) bare_world))
       = [''[ERROR] --path file not found: /home/nope.png'']
   \<and> calls (fst (main demo_ext (demo_args\<lparr>path_arg := Some ''nope.png''\<rparr>) bare_world)) = []
   \<and> snd (main demo_ext (demo_args\<lparr>path_arg := Some ''~nosuchuser/x.png''\<rparr>) bare_world)
       = Inl (Exn ExceptionK ''RuntimeError'' ''Could not determine home directory.'')
   \<and> calls (fst (main demo_ext (demo_args\<lparr>path_arg := Some ''~nosuchuser/x.png''\<rparr>) bare_world)) = []"
proof -
  let ?wa = "fst (mkdir_step [''app'', ''input''] bare_world)"
  let ?wb = "fst (mkdir_step [''app'', ''output''] ?wa)"
  let ?x = "Exn ExceptionK ''RuntimeError'' ''Could not determine home directory.''"
  have i: "path_resolve (path_join (script_dir demo_ext) ''input'') = [''app'', ''input'']"
    and o: "path_resolve (path_join (script_dir demo_ext) ''output'') = [''app'', ''output'']"
    by (simp_all add: demo_ext_def path_resolve_def path_join_def)
  have m1: "mkdir_step (path_resolve (path_join (script_dir demo_ext) ''input'')) bare_world = (?wa, Inr ())"
    unfolding i by (simp add: model_defs demo_defs)
  have m2: "mkdir_step (path_resolve (path_join (script_dir demo_ext) ''output'')) ?wa = (?wb, Inr ())"
    unfolding o by (simp add: model_defs demo_defs)
  have ci: "collect_images (fs (sys ?wb)) [''app'', ''input''] = Inr []"
    by (simp add: model_defs demo_defs)
  have ne: "path_exists (fs (sys ?wb)) [''home'', ''nope.png''] = Inr False"
    by (simp add: model_defs demo_defs)
  have rp: "resolve_path demo_ext (sys ?wb) ''nope.png'' = Inr [''home'', ''nope.png'']"
    by (simp add: model_defs demo_defs)
  have rx: "resolve_path demo_ext (sys ?wb) ''~nosuchuser/x.png'' = Inl ?x"
    by (simp add: model_defs demo_defs)
  have pa: "path_arg demo_args = None"
    by (simp add: demo_args_def)
  have ob: "out ?wb = []" and c0: "calls bare_world = []" and cb: "calls ?wb = calls bare_world"
    by (simp_all add: model_defs demo_defs)
  note t = no_input_no_pipeline [OF m1 m2]
  have r1: "main demo_ext demo_args bare_world =
              (print_line ''[INFO] Put one or more images into ./input and run again, or use --path <file>.''
                 (print_line (''[INFO] No images found in: '' @ path_str [''app'', ''input'']) ?wb), Inr ())
            \<and> calls (fst (main demo_ext demo_args bare_world)) = calls bare_world"
    using t [of demo_args, THEN conjunct1] pa ci i cb by simp
  have r2: "main demo_ext (demo_args\<lparr>path_arg := Some ''nope.png''\<rparr>) bare_world =
              (print_line (''[ERROR] --path file not found: '' @ path_str [''home'', ''nope.png'']) ?wb, Inr ())
            \<and> calls (fst (main demo_ext (demo_args\<lparr>path_arg := Some ''nope.png''\<rparr>) bare_world))
                = calls bare_world"
    using t [of "demo_args\<lparr>path_arg := Some ''nope.png''\<rparr>", THEN conjunct2, THEN conjunct1,
        rule_format, of "''nope.png''" "[''home'', ''nope.png'']"] rp ne cb
    by simp
  have r3: "main demo_ext (demo_args\<lparr>path_arg := Some ''~nosuchuser/x.png''\<rparr>) bare_world = (?wb, Inl ?x)
            \<and> calls (fst (main demo_ext (demo_args\<lparr>path_arg := Some ''~nosuchuser/x.png''\<rparr>) bare_world))
                = calls bare_world"
    using t [of "demo_args\<lparr>path_arg := Some ''~nosuchuser/x.png''\<rparr>", THEN conjunct2, THEN conjunct2,
        rule_format, of "''~nosuchuser/x.png''" ?x] rx cb
    by simp
  have s1: "snd (main demo_ext demo_args bare_world) = Inr ()
            \<and> out (fst (main demo_ext demo_args bare_world))
                = [''[INFO] No images found in: /app/input'',
                   ''[INFO] Put one or more images into ./input and run again, or use --path <file>.'']
            \<and> calls (fst (main demo_ext demo_args bare_world)) = []"
    using r1 ob c0 cb by (simp add: path_str_def)
  have s2: "snd (main demo_ext (demo_args\<lparr>path_arg := Some ''nope.png''\<rparr>) bare_world) = Inr ()
            \<and> out (fst (main demo_ext (demo_args\<lparr>path_arg := Some ''nope.png''\<rparr>) bare_world))
                = [''[ERROR] --path file not found: /home/nope.png'']
            \<and> calls (fst (main demo_ext (demo_args\<lparr>path_arg := Some ''nope.png''\<rparr>) bare_world)) = []"
    using r2 ob c0 cb by (simp add: path_str_def)
  have s3: "snd (main demo_ext (demo_args\<lparr>path_arg := Some ''~nosuchuser/x.png''\<rparr>) bare_world) = Inl ?x
            \<and> calls (fst (main demo_ext (demo_args\<lparr>path_arg := Some ''~nosuchuser/x.png''\<rparr>) bare_world)) = []"
    using r3 c0 cb by simp
  show ?thesis
    using ci ne s1 s2 s3 by blast
qed

text \<open>
  C8 as stated ("if an explicitly named --path file does not exist ... prints a message and
  returns cleanly") does not hold: \<^verbatim>\<open>--path ~nosuchuser/x.png\<close> names no existing file,
  but \<^verbatim>\<open>expanduser()\<close> on line 176 raises \<^verbatim>\<open>RuntimeError\<close> and nothing catches it:
  \<^verbatim>\<open>main\<close> ends with that exception and prints no message. No pipeline is constructed.
\<close>

theorem missing_path_reported_counterexample:
  "snd (main demo_ext (demo_args\<lparr>path_arg := Some ''~nosuchuser/x.png''\<rparr>) bare_world)
     = Inl (Exn ExceptionK ''RuntimeError'' ''Could not determine home directory.'')
   \<and> out (fst (main demo_ext (demo_args\<lparr>path_arg := Some ''~nosuchuser/x.png''\<rparr>) bare_world)) = []
   \<and> calls (fst (main demo_ext (demo_args\<lparr>path_arg := Some ''~nosuchuser/x.png''\<rparr>) bare_world)) = []"
  by (simp add: model_defs demo_defs)

end
